theory Spec2Isabelle
  imports Main "HOL-Library.Word"
begin

section \<open>Data model of the ConfigMap controller\<close>

text \<open>
  The embedding follows \<^verbatim>\<open>controllers/configmap_controller.go\<close>. Go values that the
  controller only passes around are records; every call that leaves the controller
  (cluster API client, signer, provisioning of an instance, Prometheus configuration,
  event recorder) is a field of one environment record and acts on an abstract world
  state \<open>'s\<close>. Each operation returns, next to its result and the new world state, the
  list of events it produced, in order.
\<close>

subsection \<open>Errors and panics\<close>

datatype error =
    Errorf string
  | Wrap error string
  | StatusNotFound
  | External string

text \<open>
  \<open>Errorf\<close> is \<^verbatim>\<open>errors.New\<close>/\<^verbatim>\<open>errors.Errorf\<close> with the formatted message,
  \<open>Wrap\<close> is \<^verbatim>\<open>errors.Wrap\<close>/\<^verbatim>\<open>errors.Wrapf\<close>, \<open>StatusNotFound\<close> an API status error
  whose reason is NotFound, \<open>External\<close> any other failure reported by a collaborator.
\<close>

fun IsNotFound :: "error \<Rightarrow> bool" where
  "IsNotFound StatusNotFound = True"
| "IsNotFound _ = False"

datatype 'a outcome = Returns 'a | Panic string

subsection \<open>Kubernetes objects\<close>

record NamespacedName =
  Namespace :: string
  Name :: string

text \<open>
  \<open>Data\<close> is a Go \<^verbatim>\<open>map[string]string\<close>. A \<^verbatim>\<open>range\<close> over it visits every key once,
  in an order the runtime picks; the association list holds the entries in the order
  this run visits them.
\<close>

record ConfigMap =
  cmNamespace :: string
  cmName :: string
  Data :: "(string \<times> string) list"

record Node =
  nodeName :: string
  Annotations :: "string \<rightharpoonup> string"
  Addresses :: "string list"

text \<open>
  Modelled from the spec: \<^verbatim>\<open>instances.InstanceInfo\<close> and its constructor
  \<^verbatim>\<open>instances.NewInstanceInfo\<close> live in a package that is not part of the sources at
  hand; the descriptor is \<open>{Address, Username, Credential}\<close>, and the constructor stores
  its three arguments.
\<close>

record InstanceInfo =
  Address :: string
  Username :: string
  Credential :: string

definition NewInstanceInfo :: "string \<Rightarrow> string \<Rightarrow> string \<Rightarrow> InstanceInfo" where
  "NewInstanceInfo address username credential =
     \<lparr>Address = address, Username = username, Credential = credential\<rparr>"

definition BYOHAnnotation :: string where
  "BYOHAnnotation = ''windowsmachineconfig.openshift.io/byoh''"

definition UsernameAnnotation :: string where
  "UsernameAnnotation = ''windowsmachineconfig.openshift.io/username''"

definition InstanceConfigMap :: string where
  "InstanceConfigMap = ''windows-instances''"

subsection \<open>Events of a pass\<close>

text \<open>
  One event per call that leaves the controller, with the error the call returned.
  \<open>Skip\<close> is the one event that is no call: it marks the return at the version
  annotation check of \<^verbatim>\<open>ensureInstanceIsConfigured\<close>, where the instance is left alone.
\<close>

datatype event =
    ListNodes "error option"
  | LoadCredential NamespacedName "error option"
  | Configure InstanceInfo "string \<rightharpoonup> string" "error option"
  | Skip InstanceInfo Node
  | Deconfigure Node "error option"
  | TelemetryConfigure "error option"
  | WarningEvent string string
  | GetConfigMap NamespacedName
  | CreateConfigMap ConfigMap "error option"

subsection \<open>The environment\<close>

type_synonym IP = "8 word list"

text \<open>
  \<open>net_ParseIP\<close> and \<open>net_LookupHost\<close> are the Go standard library; \<open>VersionAnnotation\<close>
  and \<open>PrivateKeySecret\<close> are constants of the packages \<^verbatim>\<open>nodeconfig\<close> and \<^verbatim>\<open>secrets\<close>;
  \<open>configureInstance\<close> and \<open>deconfigureInstance\<close> are methods of the embedded
  \<^verbatim>\<open>instanceReconciler\<close>. None of them is defined in the controller file, so they are
  parameters. \<open>client_Get\<close> reads through the manager's cache, \<open>clientset_Get\<close> and
  \<open>clientset_Create\<close> are the typed client that talks to the API server directly.
\<close>

record 's env =
  net_ParseIP :: "string \<Rightarrow> IP option"
  net_LookupHost :: "string \<Rightarrow> error + string list"
  VersionAnnotation :: string
  PrivateKeySecret :: string
  watchNamespace :: string
  client_List :: "'s \<Rightarrow> (error + Node list) \<times> 's"
  client_Get :: "NamespacedName \<Rightarrow> 's \<Rightarrow> error + ConfigMap"
  client_Create :: "ConfigMap \<Rightarrow> 's \<Rightarrow> error option \<times> 's"
  signer_Create :: "NamespacedName \<Rightarrow> 's \<Rightarrow> error option \<times> 's"
  configureInstance :: "InstanceInfo \<Rightarrow> (string \<rightharpoonup> string) \<Rightarrow> 's \<Rightarrow> error option \<times> 's"
  deconfigureInstance :: "Node \<Rightarrow> 's \<Rightarrow> error option \<times> 's"
  prometheus_Configure :: "'s \<Rightarrow> error option \<times> 's"
  kubernetes_NewForConfig :: "string \<Rightarrow> error option"
  clientset_Get :: "NamespacedName \<Rightarrow> 's \<Rightarrow> error + ConfigMap"
  clientset_Create :: "ConfigMap \<Rightarrow> 's \<Rightarrow> error option \<times> 's"

section \<open>Address validation and descriptor parsing\<close>

text \<open>
  \<^verbatim>\<open>IP.To4\<close> of the Go standard library: a 4-byte address is returned as it is, a 16-byte
  address with the IPv4-in-IPv6 prefix (ten zero bytes, then \<open>0xff 0xff\<close>) yields its
  last four bytes, everything else yields nil.
\<close>

definition To4 :: "IP \<Rightarrow> IP option" where
  "To4 ip =
     (if length ip = 4 then Some ip
      else if length ip = 16 \<and> list_all (\<lambda>b. b = 0) (take 10 ip)
              \<and> ip ! 10 = 0xff \<and> ip ! 11 = 0xff
           then Some (drop 12 ip)
           else None)"

definition validateAddress :: "'s env \<Rightarrow> string \<Rightarrow> error option" where
  "validateAddress e address =
     (case net_ParseIP e address of
        Some parsedAddr \<Rightarrow>
          (if To4 parsedAddr \<noteq> None then None
           else Some (Errorf ''ipv6 is not supported''))
      | None \<Rightarrow>
          (case net_LookupHost e address of
             Inl err \<Rightarrow> Some (Wrap err ''error looking up DNS'')
           | Inr addressList \<Rightarrow>
               (if length addressList = 0
                then Some (Errorf ''DNS did not resolve to an address'')
                else None)))"

text \<open>
  \<^verbatim>\<open>strings.SplitN(s, sep, n)\<close> for a separator of one character, which is how the
  controller calls it: at most \<open>n\<close> pieces, the last one the unsplit rest; a string
  without the separator comes back as the single piece.
\<close>

fun SplitN :: "string \<Rightarrow> char \<Rightarrow> nat \<Rightarrow> string list" where
  "SplitN s sep 0 = []"
| "SplitN s sep (Suc 0) = [s]"
| "SplitN s sep (Suc (Suc n)) =
     (if sep \<in> set s
      then takeWhile (\<lambda>c. c \<noteq> sep) s # SplitN (tl (dropWhile (\<lambda>c. c \<noteq> sep) s)) sep (Suc n)
      else [s])"

text \<open>
  The loop of \<^verbatim>\<open>parseHosts\<close>, with the slice built so far. The read \<^verbatim>\<open>splitData[1]\<close>
  is bounds-checked by the Go runtime and panics when the slice has one element.
\<close>

fun parseHosts_loop ::
  "'s env \<Rightarrow> (string \<times> string) list \<Rightarrow> InstanceInfo list \<Rightarrow> (InstanceInfo list \<times> error option) outcome"
where
  "parseHosts_loop e [] hosts = Returns (hosts, None)"
| "parseHosts_loop e ((address, data) # rest) hosts =
     (case validateAddress e address of
        Some err \<Rightarrow> Returns ([], Some (Wrap err (''invalid address '' @ address)))
      | None \<Rightarrow>
          (let splitData = SplitN data (CHR ''='') (Suc (Suc 0)) in
           if length splitData = 0 \<or> splitData ! 0 \<noteq> ''username''
           then Returns (hosts,
                  Some (Errorf (''data for entry '' @ address @ '' has an incorrect format'')))
           else if 1 < length splitData
                then parseHosts_loop e rest (hosts @ [NewInstanceInfo address (splitData ! 1) ''''])
                else Panic ''index out of range [1] with length 1''))"

definition parseHosts ::
  "'s env \<Rightarrow> (string \<times> string) list \<Rightarrow> (InstanceInfo list \<times> error option) outcome"
where
  "parseHosts e configMapData = parseHosts_loop e configMapData []"

section \<open>Reconciliation\<close>

fun findNode :: "string \<Rightarrow> Node list \<Rightarrow> Node option" where
  "findNode address [] = None"
| "findNode address (node # rest) =
     (if list_ex (\<lambda>nodeAddress. address = nodeAddress) (Addresses node)
      then Some node
      else findNode address rest)"

definition hasAssociatedInstance :: "Node \<Rightarrow> InstanceInfo list \<Rightarrow> bool" where
  "hasAssociatedInstance node instances =
     list_ex (\<lambda>instance. list_ex (\<lambda>nodeAddress. Address instance = nodeAddress) (Addresses node))
       instances"

definition instanceAnnotations :: "InstanceInfo \<Rightarrow> (string \<rightharpoonup> string)" where
  "instanceAnnotations instance =
     [BYOHAnnotation \<mapsto> ''true'', UsernameAnnotation \<mapsto> Username instance]"

definition configureNode ::
  "'s env \<Rightarrow> InstanceInfo \<Rightarrow> 's \<Rightarrow> error option \<times> 's \<times> event list"
where
  "configureNode e instance s =
     (case configureInstance e instance (instanceAnnotations instance) s of
        (Some err, s') \<Rightarrow>
          (Some (Wrap err ''error configuring node''), s',
           [Configure instance (instanceAnnotations instance) (Some err)])
      | (None, s') \<Rightarrow>
          (None, s', [Configure instance (instanceAnnotations instance) None]))"

definition ensureInstanceIsConfigured ::
  "'s env \<Rightarrow> InstanceInfo \<Rightarrow> Node list \<Rightarrow> 's \<Rightarrow> error option \<times> 's \<times> event list"
where
  "ensureInstanceIsConfigured e instance nodes s =
     (case findNode (Address instance) nodes of
        Some node \<Rightarrow>
          (if Annotations node (VersionAnnotation e) \<noteq> None
           then (None, s, [Skip instance node])
           else configureNode e instance s)
      | None \<Rightarrow> configureNode e instance s)"

text \<open>The loop over the hosts in \<^verbatim>\<open>reconcileNodes\<close>.\<close>

fun configureHosts ::
  "'s env \<Rightarrow> InstanceInfo list \<Rightarrow> Node list \<Rightarrow> 's \<Rightarrow> error option \<times> 's \<times> event list"
where
  "configureHosts e [] nodes s = (None, s, [])"
| "configureHosts e (host # rest) nodes s =
     (case ensureInstanceIsConfigured e host nodes s of
        (Some err, s', evs) \<Rightarrow>
          (Some (Wrap err (''error configuring host with address '' @ Address host)), s',
           evs @ [WarningEvent ''InstanceSetupFailure''
                    (''unable to join instance with address '' @ Address host @ '' to the cluster'')])
      | (None, s', evs) \<Rightarrow>
          (case configureHosts e rest nodes s' of
             (res, s'', evs') \<Rightarrow> (res, s'', evs @ evs')))"

fun deconfigureInstances ::
  "'s env \<Rightarrow> InstanceInfo list \<Rightarrow> Node list \<Rightarrow> 's \<Rightarrow> error option \<times> 's \<times> event list"
where
  "deconfigureInstances e instances [] s = (None, s, [])"
| "deconfigureInstances e instances (node # rest) s =
     (if Annotations node BYOHAnnotation = None
      then deconfigureInstances e instances rest s
      else if hasAssociatedInstance node instances
      then deconfigureInstances e instances rest s
      else (case deconfigureInstance e node s of
              (Some err, s') \<Rightarrow>
                (Some (Wrap err (''unable to deconfigure instance with node '' @ nodeName node)),
                 s', [Deconfigure node (Some err)])
            | (None, s') \<Rightarrow>
                (case deconfigureInstances e instances rest s' of
                   (res, s'', evs) \<Rightarrow> (res, s'', Deconfigure node None # evs))))"

definition signerName :: "'s env \<Rightarrow> NamespacedName" where
  "signerName e = \<lparr>Namespace = watchNamespace e, Name = PrivateKeySecret e\<rparr>"

definition reconcileNodes ::
  "'s env \<Rightarrow> ConfigMap \<Rightarrow> 's \<Rightarrow> (error option \<times> 's \<times> event list) outcome"
where
  "reconcileNodes e instances s =
     (case parseHosts e (Data instances) of
        Panic p \<Rightarrow> Panic p
      | Returns (hosts, Some err) \<Rightarrow>
          Returns (Some (Wrap err ''unable to parse hosts from configmap''), s, [])
      | Returns (hosts, None) \<Rightarrow>
          (case client_List e s of
             (Inl err, s1) \<Rightarrow>
               Returns (Some (Wrap err ''error listing nodes''), s1, [ListNodes (Some err)])
           | (Inr nodes, s1) \<Rightarrow>
               (let byohNodes = filter (\<lambda>node. Annotations node BYOHAnnotation = Some ''true'') nodes in
                if length hosts = 0 \<and> length byohNodes = 0
                then Returns (None, s1, [ListNodes None])
                else
                  (case signer_Create e (signerName e) s1 of
                     (Some err, s2) \<Rightarrow>
                       Returns (Some (Wrap err ''unable to create signer from private key secret''), s2,
                                [ListNodes None, LoadCredential (signerName e) (Some err)])
                   | (None, s2) \<Rightarrow>
                       (case configureHosts e hosts nodes s2 of
                          (Some err, s3, evs3) \<Rightarrow>
                            Returns (Some err, s3,
                                     [ListNodes None, LoadCredential (signerName e) None] @ evs3)
                        | (None, s3, evs3) \<Rightarrow>
                            (case deconfigureInstances e hosts nodes s3 of
                               (Some err, s4, evs4) \<Rightarrow>
                                 Returns (Some (Wrap err ''error removing undesired nodes from cluster''), s4,
                                          [ListNodes None, LoadCredential (signerName e) None] @ evs3 @ evs4)
                             | (None, s4, evs4) \<Rightarrow>
                                 (case prometheus_Configure e s4 of
                                    (Some err, s5) \<Rightarrow>
                                      Returns (Some (Wrap err ''unable to configure Prometheus''), s5,
                                               [ListNodes None, LoadCredential (signerName e) None]
                                               @ evs3 @ evs4 @ [TelemetryConfigure (Some err)])
                                  | (None, s5) \<Rightarrow>
                                      Returns (None, s5,
                                               [ListNodes None, LoadCredential (signerName e) None]
                                               @ evs3 @ evs4 @ [TelemetryConfigure None]))))))))"

section \<open>Event filter\<close>

record Object =
  GetNamespace :: string
  GetName :: string

datatype watch_event =
    CreateEvent Object
  | UpdateEvent Object Object
  | DeleteEvent Object bool

text \<open>
  \<open>UpdateEvent old new\<close> carries \<^verbatim>\<open>ObjectOld\<close> and \<^verbatim>\<open>ObjectNew\<close>; the flag of
  \<open>DeleteEvent\<close> is \<^verbatim>\<open>DeleteStateUnknown\<close>.
\<close>

definition isValidConfigMap :: "'s env \<Rightarrow> Object \<Rightarrow> bool" where
  "isValidConfigMap e obj \<longleftrightarrow> GetNamespace obj = watchNamespace e \<and> GetName obj = InstanceConfigMap"

fun configMapPredicate :: "'s env \<Rightarrow> watch_event \<Rightarrow> bool" where
  "configMapPredicate e (CreateEvent obj) = isValidConfigMap e obj"
| "configMapPredicate e (UpdateEvent objOld objNew) = isValidConfigMap e objNew"
| "configMapPredicate e (DeleteEvent obj deleteStateUnknown) =
     (if deleteStateUnknown then False else isValidConfigMap e obj)"

definition mapToConfigMap :: "'s env \<Rightarrow> Object \<Rightarrow> NamespacedName list" where
  "mapToConfigMap e obj = [\<lparr>Namespace = watchNamespace e, Name = InstanceConfigMap\<rparr>]"

text \<open>
  The Node watch of \<^verbatim>\<open>SetupWithManager\<close>: an object that passes the predicate given to
  \<^verbatim>\<open>builder.WithPredicates\<close> is handed to the map function, whose requests are enqueued.
  The predicate \<^verbatim>\<open>windowsNodePredicate(true)\<close> is defined elsewhere and is a parameter.
\<close>

definition nodeWatchRequests :: "'s env \<Rightarrow> (Object \<Rightarrow> bool) \<Rightarrow> Object \<Rightarrow> NamespacedName list" where
  "nodeWatchRequests e windowsNodePredicate obj =
     (if windowsNodePredicate obj then mapToConfigMap e obj else [])"

section \<open>Bootstrap of the tracking ConfigMap\<close>

definition emptyConfigMap :: ConfigMap where
  "emptyConfigMap = \<lparr>cmNamespace = [], cmName = [], Data = []\<rparr>"

definition newConfigMap :: "string \<Rightarrow> string \<Rightarrow> ConfigMap" where
  "newConfigMap namespace name = emptyConfigMap\<lparr>cmNamespace := namespace, cmName := name\<rparr>"

text \<open>
  \<^verbatim>\<open>ensure\<close> returns a pointer and an error; the pointer is \<open>None\<close> where the code
  returns nil.
\<close>

definition ensure ::
  "'s env \<Rightarrow> NamespacedName \<Rightarrow> 's \<Rightarrow> (ConfigMap option \<times> error option) \<times> 's \<times> event list"
where
  "ensure e namespacedName s =
     (case client_Get e namespacedName s of
        Inr windowsInstances \<Rightarrow> ((Some windowsInstances, None), s, [GetConfigMap namespacedName])
      | Inl err \<Rightarrow>
          (if IsNotFound err
           then
             (let windowsInstances = newConfigMap (Namespace namespacedName) (Name namespacedName) in
              case client_Create e windowsInstances s of
                (Some err', s') \<Rightarrow>
                  ((None, Some err'), s',
                   [GetConfigMap namespacedName, CreateConfigMap windowsInstances (Some err')])
              | (None, s') \<Rightarrow>
                  (case client_Get e namespacedName s' of
                     Inl err'' \<Rightarrow>
                       ((None, Some err''), s',
                        [GetConfigMap namespacedName, CreateConfigMap windowsInstances None,
                         GetConfigMap namespacedName])
                   | Inr created \<Rightarrow>
                       ((Some created, None), s',
                        [GetConfigMap namespacedName, CreateConfigMap windowsInstances None,
                         GetConfigMap namespacedName])))
           else ((Some emptyConfigMap, Some err), s, [GetConfigMap namespacedName])))"

text \<open>
  \<^verbatim>\<open>EnsureWindowsInstancesConfigMap\<close>: \<open>cfg\<close> is \<open>None\<close> for a nil \<^verbatim>\<open>*rest.Config\<close>.
  The typed \<^verbatim>\<open>Get\<close> hands back an empty ConfigMap next to its error; the code sets the
  namespace and the name on it and passes it to \<^verbatim>\<open>Create\<close>. After the create the function
  returns the error of the create and does not read again.
\<close>

definition EnsureWindowsInstancesConfigMap ::
  "'s env \<Rightarrow> string option \<Rightarrow> string \<Rightarrow> 's \<Rightarrow> error option \<times> 's \<times> event list"
where
  "EnsureWindowsInstancesConfigMap e cfg namespace s =
     (case cfg of
        None \<Rightarrow> (Some (Errorf ''config should not be nil''), s, [])
      | Some c \<Rightarrow>
          (case kubernetes_NewForConfig e c of
             Some err \<Rightarrow> (Some (Wrap err ''error creating config client''), s, [])
           | None \<Rightarrow>
               (let nn = \<lparr>Namespace = namespace, Name = InstanceConfigMap\<rparr> in
                case clientset_Get e nn s of
                  Inr windowsInstances \<Rightarrow> (None, s, [GetConfigMap nn])
                | Inl err \<Rightarrow>
                    (if IsNotFound err
                     then
                       (case clientset_Create e (newConfigMap namespace InstanceConfigMap) s of
                          (Some err', s') \<Rightarrow>
                            (Some err', s',
                             [GetConfigMap nn,
                              CreateConfigMap (newConfigMap namespace InstanceConfigMap) (Some err')])
                        | (None, s') \<Rightarrow>
                            (None, s',
                             [GetConfigMap nn,
                              CreateConfigMap (newConfigMap namespace InstanceConfigMap) None]))
                     else (Some err, s, [GetConfigMap nn])))))"

definition Reconcile ::
  "'s env \<Rightarrow> NamespacedName \<Rightarrow> 's \<Rightarrow> (error option \<times> 's \<times> event list) outcome"
where
  "Reconcile e req s =
     (case ensure e req s of
        ((_, Some err), s', evs) \<Rightarrow> Returns (Some err, s', evs)
      | ((None, None), s', evs) \<Rightarrow> Panic ''nil pointer dereference''
      | ((Some configMap, None), s', evs) \<Rightarrow>
          (case reconcileNodes e configMap s' of
             Panic p \<Rightarrow> Panic p
           | Returns (res, s'', evs') \<Rightarrow> Returns (res, s'', evs @ evs')))"

section \<open>A sample cluster\<close>

text \<open>
  A concrete environment on which the definitions are evaluated. The world state is the
  list of ConfigMaps the API server holds. \<open>IPv4\<close> is \<^verbatim>\<open>net.IPv4\<close>, the 16-byte form
  that \<^verbatim>\<open>net.ParseIP\<close> returns for a dotted-decimal address and for the IPv4-mapped IPv6
  literal of the same address. Configuring fails for the
  addresses in \<open>badHosts\<close>, deconfiguring for the node names in \<open>badNodes\<close>.
\<close>

definition IPv4 :: "8 word \<Rightarrow> 8 word \<Rightarrow> 8 word \<Rightarrow> 8 word \<Rightarrow> IP" where
  "IPv4 a b c d = [0, 0, 0, 0, 0, 0, 0, 0, 0, 0, 0xff, 0xff, a, b, c, d]"

definition IPv6loopback :: IP where
  "IPv6loopback = [0, 0, 0, 0, 0, 0, 0, 0, 0, 0, 0, 0, 0, 0, 0, 1]"

definition sample_ParseIP :: "string \<Rightarrow> IP option" where
  "sample_ParseIP address =
     (if address = ''10.0.0.1'' then Some (IPv4 10 0 0 1)
      else if address = ''10.0.0.2'' then Some (IPv4 10 0 0 2)
      else if address = ''10.0.0.3'' then Some (IPv4 10 0 0 3)
      else if address = ''::1'' then Some IPv6loopback
      else if address = ''::ffff:10.0.0.1'' then Some (IPv4 10 0 0 1)
      else None)"

definition sample_LookupHost :: "string \<Rightarrow> error + string list" where
  "sample_LookupHost address =
     (if address = ''winhost.example.com'' then Inr [''10.0.0.9'']
      else if address = ''nohost.example.com'' then Inr []
      else Inl (External ''no such host''))"

fun store_Get :: "NamespacedName \<Rightarrow> ConfigMap list \<Rightarrow> error + ConfigMap" where
  "store_Get nn [] = Inl StatusNotFound"
| "store_Get nn (cm # rest) =
     (if cmNamespace cm = Namespace nn \<and> cmName cm = Name nn then Inr cm else store_Get nn rest)"

definition store_Create :: "ConfigMap \<Rightarrow> ConfigMap list \<Rightarrow> error option \<times> ConfigMap list" where
  "store_Create cm store =
     (case store_Get \<lparr>Namespace = cmNamespace cm, Name = cmName cm\<rparr> store of
        Inr _ \<Rightarrow> (Some (External ''already exists''), store)
      | Inl _ \<Rightarrow> (None, store @ [cm]))"

definition sample_env :: "Node list \<Rightarrow> string list \<Rightarrow> string list \<Rightarrow> (ConfigMap list) env" where
  "sample_env nodes badHosts badNodes =
     \<lparr>net_ParseIP = sample_ParseIP,
      net_LookupHost = sample_LookupHost,
      VersionAnnotation = ''windowsmachineconfig.openshift.io/version'',
      PrivateKeySecret = ''cloud-private-key'',
      watchNamespace = ''wmco'',
      client_List = (\<lambda>s. (Inr nodes, s)),
      client_Get = store_Get,
      client_Create = store_Create,
      signer_Create = (\<lambda>nn s. (None, s)),
      configureInstance =
        (\<lambda>instance annotations s.
           (if Address instance \<in> set badHosts then Some (External ''ssh failed'') else None, s)),
      deconfigureInstance =
        (\<lambda>node s. (if nodeName node \<in> set badNodes then Some (External ''drain failed'') else None, s)),
      prometheus_Configure = (\<lambda>s. (None, s)),
      kubernetes_NewForConfig = (\<lambda>cfg. None),
      clientset_Get = store_Get,
      clientset_Create = store_Create\<rparr>"

definition sample_node :: "string \<Rightarrow> (string \<rightharpoonup> string) \<Rightarrow> string \<Rightarrow> Node" where
  "sample_node name annotations address =
     \<lparr>nodeName = name, Annotations = annotations, Addresses = [address]\<rparr>"

section \<open>Targets and decisions of a pass\<close>

text \<open>
  What the statements about a pass speak of. The target of an event is the host a
  \<open>Configure\<close> or \<open>Skip\<close> is about, or the member a \<open>Deconfigure\<close> is about. An event has
  failed when its call returned an error. \<open>configuredNode\<close> is the test at the head of
  \<^verbatim>\<open>ensureInstanceIsConfigured\<close>: the node \<^verbatim>\<open>findNode\<close> returns, when it carries the version
  annotation. \<open>decision\<close> is the event of a host whose processing returns no error,
  \<open>stale\<close> the test \<^verbatim>\<open>deconfigureInstances\<close> applies to a node before it deconfigures it,
  and \<open>setupFailure\<close> the warning recorded for a host that could not be configured.
\<close>

datatype target = Host InstanceInfo | Member Node

fun targetOf :: "event \<Rightarrow> target option" where
  "targetOf (Configure instance annotations res) = Some (Host instance)"
| "targetOf (Skip instance node) = Some (Host instance)"
| "targetOf (Deconfigure node res) = Some (Member node)"
| "targetOf _ = None"

fun targets :: "event list \<Rightarrow> target list" where
  "targets [] = []"
| "targets (ev # evs) = (case targetOf ev of None \<Rightarrow> targets evs | Some t \<Rightarrow> t # targets evs)"

fun failed :: "event \<Rightarrow> bool" where
  "failed (ListNodes (Some err)) = True"
| "failed (LoadCredential nn (Some err)) = True"
| "failed (Configure instance annotations (Some err)) = True"
| "failed (Deconfigure node (Some err)) = True"
| "failed _ = False"

definition configuredNode :: "'s env \<Rightarrow> Node list \<Rightarrow> InstanceInfo \<Rightarrow> Node option" where
  "configuredNode e nodes instance =
     (case findNode (Address instance) nodes of
        Some node \<Rightarrow> if Annotations node (VersionAnnotation e) \<noteq> None then Some node else None
      | None \<Rightarrow> None)"

definition decision :: "'s env \<Rightarrow> Node list \<Rightarrow> InstanceInfo \<Rightarrow> event" where
  "decision e nodes instance =
     (case configuredNode e nodes instance of
        Some node \<Rightarrow> Skip instance node
      | None \<Rightarrow> Configure instance (instanceAnnotations instance) None)"

definition stale :: "InstanceInfo list \<Rightarrow> Node \<Rightarrow> bool" where
  "stale instances node \<longleftrightarrow>
     Annotations node BYOHAnnotation \<noteq> None \<and> \<not> hasAssociatedInstance node instances"

definition setupFailure :: "InstanceInfo \<Rightarrow> event" where
  "setupFailure host =
     WarningEvent ''InstanceSetupFailure''
       (''unable to join instance with address '' @ Address host @ '' to the cluster'')"

subsection \<open>Sample desired states and members\<close>

definition sample_cm :: "(string \<times> string) list \<Rightarrow> ConfigMap" where
  "sample_cm entries = \<lparr>cmNamespace = ''wmco'', cmName = ''windows-instances'', Data = entries\<rparr>"

definition admin :: "string \<Rightarrow> InstanceInfo" where
  "admin address = NewInstanceInfo address ''admin'' ''''"

definition byoh :: "string \<rightharpoonup> string" where
  "byoh = [BYOHAnnotation \<mapsto> ''true'']"

definition byohConfigured :: "string \<rightharpoonup> string" where
  "byohConfigured =
     [BYOHAnnotation \<mapsto> ''true'', ''windowsmachineconfig.openshift.io/version'' \<mapsto> ''3.0.0'']"


definition sample_entries :: "(string \<times> string) list" where
  "sample_entries =
     [(''10.0.0.1'', ''username=admin''), (''10.0.0.2'', ''username=admin''),
      (''10.0.0.3'', ''username=admin'')]"

definition sample_credential :: event where
  "sample_credential = LoadCredential \<lparr>Namespace = ''wmco'', Name = ''cloud-private-key''\<rparr> None"

definition sample_nodes :: "Node list" where
  "sample_nodes =
     [sample_node ''win-stale'' byoh ''10.0.0.9'',
      sample_node ''win-1'' byohConfigured ''10.0.0.1'',
      sample_node ''linux-1'' Map.empty ''10.0.0.7'']"

definition stale_nodes :: "Node list" where
  "stale_nodes = [sample_node ''m1'' byoh ''10.0.0.8'', sample_node ''m2'' byoh ''10.0.0.9'']"

definition twin_nodes :: "Node list" where
  "twin_nodes =
     [sample_node ''win-new'' Map.empty ''10.0.0.1'',
      sample_node ''win-1'' byohConfigured ''10.0.0.1'']"

subsection \<open>Well-formed entries\<close>

text \<open>
  An entry of the ConfigMap is well formed when its key validates as an address and its
  value begins with \<^verbatim>\<open>username=\<close>; \<open>instanceOf\<close> is the descriptor such an entry stands
  for, the username being everything after the first \<^verbatim>\<open>=\<close>.
\<close>

definition wellFormed :: "'s env \<Rightarrow> string \<times> string \<Rightarrow> bool" where
  "wellFormed e entry \<longleftrightarrow>
     validateAddress e (fst entry) = None \<and> take 9 (snd entry) = ''username=''"

definition instanceOf :: "string \<times> string \<Rightarrow> InstanceInfo" where
  "instanceOf entry = NewInstanceInfo (fst entry) (drop 9 (snd entry)) ''''"

subsection \<open>Sample API servers\<close>

text \<open>
  \<open>tracking\<close> is the identity of the tracking ConfigMap in the sample namespace. The
  server of \<open>unreachable_env\<close> answers every read with an error that is not NotFound,
  the server of \<open>readonly_env\<close> refuses every create.
\<close>

definition tracking :: NamespacedName where
  "tracking = \<lparr>Namespace = ''wmco'', Name = InstanceConfigMap\<rparr>"

definition unreachable_env :: "(ConfigMap list) env" where
  "unreachable_env =
     (sample_env [] [] [])
       \<lparr>client_Get := (\<lambda>nn s. Inl (External ''connection refused'')),
        clientset_Get := (\<lambda>nn s. Inl (External ''connection refused''))\<rparr>"

definition readonly_env :: "(ConfigMap list) env" where
  "readonly_env =
     (sample_env [] [] [])\<lparr>client_Create := (\<lambda>cm s. (Some (External ''forbidden''), s))\<rparr>"

section \<open>Evaluation on the sample cluster\<close>

lemmas sample_defs =
  parseHosts_def validateAddress_def sample_env_def sample_ParseIP_def sample_LookupHost_def
  To4_def IPv4_def sample_cm_def NewInstanceInfo_def admin_def signerName_def
  ensureInstanceIsConfigured_def configureNode_def sample_node_def byoh_def byohConfigured_def
  BYOHAnnotation_def hasAssociatedInstance_def sample_entries_def sample_credential_def
  setupFailure_def reconcileNodes_def stale_def

section \<open>Descriptor parsing: the index read\<close>

text \<open>
  C10 states that \<^verbatim>\<open>parseHosts\<close> is total, the read \<^verbatim>\<open>splitData[1]\<close> always being in
  bounds because the guard rejects every value without a second token, the value
  \<^verbatim>\<open>username\<close> included. On the code the guard lets exactly that value through:
  \<^verbatim>\<open>SplitN\<close> returns the one-element slice \<^verbatim>\<open>["username"]\<close>, its length is not 0 and
  its first element is \<^verbatim>\<open>username\<close>, so the read of index 1 panics.
\<close>

theorem parseHosts_bare_username_panics:
  "SplitN ''username'' (CHR ''='') (Suc (Suc 0)) = [''username'']
   \<and> validateAddress (sample_env [] [] []) ''10.0.0.1'' = None
   \<and> parseHosts (sample_env [] [] []) [(''10.0.0.1'', ''username'')]
       = Panic ''index out of range [1] with length 1''"
  by (simp add: parseHosts_def validateAddress_def sample_env_def sample_ParseIP_def
      To4_def IPv4_def)

section \<open>Address validation\<close>

text \<open>
  C6, as stated, fails on the code: not every string that parses as an IPv6 literal is
  rejected. The IPv4-mapped IPv6 literal \<^verbatim>\<open>::ffff:10.0.0.1\<close> parses to the 16-byte form of
  \<^verbatim>\<open>10.0.0.1\<close>, whose \<^verbatim>\<open>To4\<close> is not nil, and validation succeeds for it.
\<close>

theorem validateAddress_mapped_literal_counterexample:
  "net_ParseIP (sample_env [] [] []) ''::ffff:10.0.0.1'' = Some (IPv4 10 0 0 1)
   \<and> To4 (IPv4 10 0 0 1) = Some [10, 0, 0, 1]
   \<and> validateAddress (sample_env [] [] []) ''::ffff:10.0.0.1'' = None"
  by (simp add: validateAddress_def sample_env_def sample_ParseIP_def To4_def IPv4_def)

text \<open>
  C6, amended. Validation succeeds for every address that parses to an IP with a 4-byte
  form: an IPv4 literal, and an IPv4-mapped IPv6 literal as well. It fails with
  \<^verbatim>\<open>ipv6 is not supported\<close> for every address that parses to an IP without a 4-byte
  form. Every string that does not parse as an IP goes to host lookup, whose error is
  returned wrapped and whose empty answer is an error too. So \<^verbatim>\<open>::1\<close>, which the library
  parses to the IPv6 loopback address, is rejected as IPv6, \<^verbatim>\<open>::ffff:10.0.0.1\<close>, which
  the library parses to the 16-byte form of \<^verbatim>\<open>10.0.0.1\<close>, is accepted, and
  \<^verbatim>\<open>999.999.999.999\<close>, which the library does not parse, is decided by the lookup.
\<close>

theorem validateAddress_cases:
  "(net_ParseIP e address = Some ip \<and> To4 ip = Some ip4 \<longrightarrow> validateAddress e address = None)
   \<and> (net_ParseIP e address = Some ip \<and> To4 ip = None \<longrightarrow>
        validateAddress e address = Some (Errorf ''ipv6 is not supported''))
   \<and> (net_ParseIP e address = None \<and> net_LookupHost e address = Inl err \<longrightarrow>
        validateAddress e address = Some (Wrap err ''error looking up DNS''))
   \<and> (net_ParseIP e address = None \<and> net_LookupHost e address = Inr [] \<longrightarrow>
        validateAddress e address = Some (Errorf ''DNS did not resolve to an address''))
   \<and> (net_ParseIP e address = None \<and> net_LookupHost e address = Inr (a # as) \<longrightarrow>
        validateAddress e address = None)
   \<and> (net_ParseIP e ''::1'' = Some IPv6loopback \<longrightarrow>
        validateAddress e ''::1'' = Some (Errorf ''ipv6 is not supported''))
   \<and> (net_ParseIP e ''::ffff:10.0.0.1'' = Some (IPv4 10 0 0 1) \<longrightarrow>
        validateAddress e ''::ffff:10.0.0.1'' = None)
   \<and> (net_ParseIP e ''999.999.999.999'' = None \<longrightarrow>
        validateAddress e ''999.999.999.999''
          = (case net_LookupHost e ''999.999.999.999'' of
               Inl err \<Rightarrow> Some (Wrap err ''error looking up DNS'')
             | Inr addressList \<Rightarrow>
                 if addressList = [] then Some (Errorf ''DNS did not resolve to an address'')
                 else None))"
  by (auto simp add: validateAddress_def To4_def IPv6loopback_def IPv4_def split: sum.splits)

theorem validateAddress_cases_witness:
  "validateAddress (sample_env [] [] []) ''10.0.0.1'' = None
   \<and> validateAddress (sample_env [] [] []) ''::1'' = Some (Errorf ''ipv6 is not supported'')
   \<and> validateAddress (sample_env [] [] []) ''::ffff:10.0.0.1'' = None
   \<and> validateAddress (sample_env [] [] []) ''999.999.999.999''
       = Some (Wrap (External ''no such host'') ''error looking up DNS'')
   \<and> validateAddress (sample_env [] [] []) ''nohost.example.com''
       = Some (Errorf ''DNS did not resolve to an address'')
   \<and> validateAddress (sample_env [] [] []) ''winhost.example.com'' = None"
proof -
  let ?e = "sample_env [] [] [] :: (ConfigMap list) env"
  have p1: "net_ParseIP ?e ''10.0.0.1'' = Some (IPv4 10 0 0 1)
            \<and> To4 (IPv4 10 0 0 1) = Some [10, 0, 0, 1]"
    by (simp add: sample_env_def sample_ParseIP_def To4_def IPv4_def)
  have p2: "net_ParseIP ?e ''::1'' = Some IPv6loopback"
    by (simp add: sample_env_def sample_ParseIP_def)
  have pm: "net_ParseIP ?e ''::ffff:10.0.0.1'' = Some (IPv4 10 0 0 1)"
    by (simp add: sample_env_def sample_ParseIP_def)
  have p3: "net_ParseIP ?e ''999.999.999.999'' = None"
    by (simp add: sample_env_def sample_ParseIP_def)
  have l3: "net_LookupHost ?e ''999.999.999.999'' = Inl (External ''no such host'')"
    by (simp add: sample_env_def sample_LookupHost_def)
  have p4: "net_ParseIP ?e ''nohost.example.com'' = None
            \<and> net_LookupHost ?e ''nohost.example.com'' = Inr []"
    by (simp add: sample_env_def sample_ParseIP_def sample_LookupHost_def)
  have p5: "net_ParseIP ?e ''winhost.example.com'' = None
            \<and> net_LookupHost ?e ''winhost.example.com'' = Inr (''10.0.0.9'' # [])"
    by (simp add: sample_env_def sample_ParseIP_def sample_LookupHost_def)
  show ?thesis
    using p1 p2 pm p3 l3 p4 p5
      validateAddress_cases [of ?e "''10.0.0.1''" "IPv4 10 0 0 1" "[10, 0, 0, 1]"]
      validateAddress_cases [of ?e "''::1''"]
      validateAddress_cases [of ?e "''999.999.999.999''"]
      validateAddress_cases [of ?e "''nohost.example.com''"]
      validateAddress_cases [of ?e "''winhost.example.com''" _ _ _ "''10.0.0.9''" "[]"]
    by simp
qed

section \<open>Event filter and watch mapping\<close>

text \<open>
  C8. A create, update or delete event of a ConfigMap passes the filter exactly when
  the object (the new object, for an update) has the watched namespace and the name
  \<^verbatim>\<open>windows-instances\<close>, and a delete event whose state is unknown never passes. A Node
  that passes the Node predicate is mapped to exactly one request, for that same
  identity, whatever the Node is.
\<close>

theorem event_filter:
  "(configMapPredicate e (CreateEvent obj) \<longleftrightarrow>
       GetNamespace obj = watchNamespace e \<and> GetName obj = InstanceConfigMap)
   \<and> (configMapPredicate e (UpdateEvent objOld objNew) \<longleftrightarrow>
       GetNamespace objNew = watchNamespace e \<and> GetName objNew = InstanceConfigMap)
   \<and> (configMapPredicate e (DeleteEvent obj deleteStateUnknown) \<longleftrightarrow>
       \<not> deleteStateUnknown \<and> GetNamespace obj = watchNamespace e \<and> GetName obj = InstanceConfigMap)
   \<and> (windowsNodePredicate node \<longrightarrow>
       nodeWatchRequests e windowsNodePredicate node
         = [\<lparr>Namespace = watchNamespace e, Name = InstanceConfigMap\<rparr>])"
  by (simp add: isValidConfigMap_def nodeWatchRequests_def mapToConfigMap_def)

theorem event_filter_witness:
  "configMapPredicate (sample_env [] [] [])
     (CreateEvent \<lparr>GetNamespace = ''wmco'', GetName = ''windows-instances''\<rparr>)
   \<and> \<not> configMapPredicate (sample_env [] [] [])
     (UpdateEvent \<lparr>GetNamespace = ''wmco'', GetName = ''windows-instances''\<rparr>
                  \<lparr>GetNamespace = ''wmco'', GetName = ''other''\<rparr>)
   \<and> \<not> configMapPredicate (sample_env [] [] [])
     (DeleteEvent \<lparr>GetNamespace = ''wmco'', GetName = ''windows-instances''\<rparr> True)
   \<and> nodeWatchRequests (sample_env [] [] []) (\<lambda>node. GetName node = ''win-1'')
       \<lparr>GetNamespace = [], GetName = ''win-1''\<rparr>
     = [\<lparr>Namespace = ''wmco'', Name = ''windows-instances''\<rparr>]"
  using
    event_filter [of "sample_env [] [] []"
      "\<lparr>GetNamespace = ''wmco'', GetName = ''windows-instances''\<rparr>"
      "\<lparr>GetNamespace = ''wmco'', GetName = ''windows-instances''\<rparr>"
      "\<lparr>GetNamespace = ''wmco'', GetName = ''other''\<rparr>" True
      "\<lambda>node. GetName node = ''win-1''" "\<lparr>GetNamespace = [], GetName = ''win-1''\<rparr>"]
  by (simp add: sample_env_def InstanceConfigMap_def)

section \<open>The shape of a pass\<close>

lemma ensureInstanceIsConfigured_cases:
  "ensureInstanceIsConfigured e host nodes s = (res, s', evs) \<Longrightarrow>
     (res = None \<and> evs = [decision e nodes host]) \<or>
     (\<exists>err. configuredNode e nodes host = None
        \<and> evs = [Configure host (instanceAnnotations host) (Some err)]
        \<and> res = Some (Wrap err ''error configuring node''))"
  by (auto simp add: ensureInstanceIsConfigured_def configureNode_def decision_def
      configuredNode_def split: option.splits if_splits prod.splits)

lemma configureHosts_shape:
  "configureHosts e hosts nodes s = (res, s', evs) \<Longrightarrow>
     (res = None \<and> evs = map (decision e nodes) hosts) \<or>
     (\<exists>before host after err.
        hosts = before @ host # after \<and> configuredNode e nodes host = None
        \<and> evs = map (decision e nodes) before
                 @ [Configure host (instanceAnnotations host) (Some err), setupFailure host]
        \<and> res = Some (Wrap (Wrap err ''error configuring node'')
                        (''error configuring host with address '' @ Address host)))"
proof (induction hosts arbitrary: s res s' evs)
  case Nil
  then show ?case by simp
next
  case (Cons host rest)
  obtain r1 s1 ev1 where step: "ensureInstanceIsConfigured e host nodes s = (r1, s1, ev1)"
    by (cases "ensureInstanceIsConfigured e host nodes s") auto
  show ?case
  proof (cases r1)
    case (Some err1)
    with ensureInstanceIsConfigured_cases [OF step]
    obtain err where f: "configuredNode e nodes host = None"
      "ev1 = [Configure host (instanceAnnotations host) (Some err)]"
      "r1 = Some (Wrap err ''error configuring node'')"
      by auto
    from Cons.prems step f
    have "res = Some (Wrap (Wrap err ''error configuring node'')
                        (''error configuring host with address '' @ Address host))"
      and "evs = map (decision e nodes) []
                 @ [Configure host (instanceAnnotations host) (Some err), setupFailure host]"
      by (auto simp add: setupFailure_def)
    with f(1) have "\<exists>before h after err.
        host # rest = before @ h # after \<and> configuredNode e nodes h = None
        \<and> evs = map (decision e nodes) before
                 @ [Configure h (instanceAnnotations h) (Some err), setupFailure h]
        \<and> res = Some (Wrap (Wrap err ''error configuring node'')
                        (''error configuring host with address '' @ Address h))"
      by (intro exI [of _ "[]"] exI [of _ host] exI [of _ rest] exI [of _ err]) simp
    then show ?thesis by blast
  next
    case None
    with ensureInstanceIsConfigured_cases [OF step]
    have ev1: "ev1 = [decision e nodes host]" by auto
    obtain r2 s2 ev2 where rec: "configureHosts e rest nodes s1 = (r2, s2, ev2)"
      by (cases "configureHosts e rest nodes s1") auto
    from Cons.prems step None rec have out: "res = r2" "evs = ev1 @ ev2"
      by auto
    from Cons.IH [OF rec] show ?thesis
    proof
      assume "r2 = None \<and> ev2 = map (decision e nodes) rest"
      with out ev1 show ?thesis by simp
    next
      assume "\<exists>before h after err.
        rest = before @ h # after \<and> configuredNode e nodes h = None
        \<and> ev2 = map (decision e nodes) before
                 @ [Configure h (instanceAnnotations h) (Some err), setupFailure h]
        \<and> r2 = Some (Wrap (Wrap err ''error configuring node'')
                        (''error configuring host with address '' @ Address h))"
      then obtain before h after err where
        r: "rest = before @ h # after" "configuredNode e nodes h = None"
        "ev2 = map (decision e nodes) before
                 @ [Configure h (instanceAnnotations h) (Some err), setupFailure h]"
        "r2 = Some (Wrap (Wrap err ''error configuring node'')
                        (''error configuring host with address '' @ Address h))"
        by blast
      with out ev1 have "host # rest = (host # before) @ h # after \<and> configuredNode e nodes h = None
        \<and> evs = map (decision e nodes) (host # before)
                 @ [Configure h (instanceAnnotations h) (Some err), setupFailure h]
        \<and> res = Some (Wrap (Wrap err ''error configuring node'')
                        (''error configuring host with address '' @ Address h))"
        by simp
      then show ?thesis by blast
    qed
  qed
qed

lemma deconfigureInstances_shape:
  "deconfigureInstances e hosts nodes s = (res, s', evs) \<Longrightarrow>
     (res = None \<and> evs = map (\<lambda>node. Deconfigure node None) (filter (stale hosts) nodes)) \<or>
     (\<exists>before node after err.
        nodes = before @ node # after \<and> stale hosts node
        \<and> evs = map (\<lambda>node. Deconfigure node None) (filter (stale hosts) before)
                 @ [Deconfigure node (Some err)]
        \<and> res = Some (Wrap err (''unable to deconfigure instance with node '' @ nodeName node)))"
proof (induction nodes arbitrary: s res s' evs)
  case Nil
  then show ?case by simp
next
  case (Cons node rest)
  show ?case
  proof (cases "stale hosts node")
    case False
    with Cons.prems have rec: "deconfigureInstances e hosts rest s = (res, s', evs)"
      by (auto simp add: stale_def split: if_splits)
    from Cons.IH [OF rec] show ?thesis
    proof
      assume "res = None \<and> evs = map (\<lambda>node. Deconfigure node None) (filter (stale hosts) rest)"
      with False show ?thesis by simp
    next
      assume "\<exists>before n after err.
        rest = before @ n # after \<and> stale hosts n
        \<and> evs = map (\<lambda>node. Deconfigure node None) (filter (stale hosts) before)
                 @ [Deconfigure n (Some err)]
        \<and> res = Some (Wrap err (''unable to deconfigure instance with node '' @ nodeName n))"
      then obtain before n after err where
        r: "rest = before @ n # after" "stale hosts n"
        "evs = map (\<lambda>node. Deconfigure node None) (filter (stale hosts) before)
                 @ [Deconfigure n (Some err)]"
        "res = Some (Wrap err (''unable to deconfigure instance with node '' @ nodeName n))"
        by blast
      with False have "node # rest = (node # before) @ n # after \<and> stale hosts n
        \<and> evs = map (\<lambda>node. Deconfigure node None) (filter (stale hosts) (node # before))
                 @ [Deconfigure n (Some err)]
        \<and> res = Some (Wrap err (''unable to deconfigure instance with node '' @ nodeName n))"
        by simp
      then show ?thesis by blast
    qed
  next
    case True
    obtain r1 s1 where step: "deconfigureInstance e node s = (r1, s1)"
      by (cases "deconfigureInstance e node s") auto
    show ?thesis
    proof (cases r1)
      case (Some err)
      with Cons.prems True step
      have "res = Some (Wrap err (''unable to deconfigure instance with node '' @ nodeName node))"
        and "evs = map (\<lambda>node. Deconfigure node None) (filter (stale hosts) [])
                 @ [Deconfigure node (Some err)]"
        by (auto simp add: stale_def)
      with True have "node # rest = [] @ node # rest \<and> stale hosts node
        \<and> evs = map (\<lambda>node. Deconfigure node None) (filter (stale hosts) [])
                 @ [Deconfigure node (Some err)]
        \<and> res = Some (Wrap err (''unable to deconfigure instance with node '' @ nodeName node))"
        by simp
      then show ?thesis by blast
    next
      case None
      obtain r2 s2 ev2 where rec: "deconfigureInstances e hosts rest s1 = (r2, s2, ev2)"
        by (cases "deconfigureInstances e hosts rest s1") auto
      from Cons.prems True step None rec
      have out: "res = r2" "evs = Deconfigure node None # ev2"
        by (auto simp add: stale_def)
      from Cons.IH [OF rec] show ?thesis
      proof
        assume "r2 = None \<and> ev2 = map (\<lambda>node. Deconfigure node None) (filter (stale hosts) rest)"
        with out True show ?thesis by simp
      next
        assume "\<exists>before n after err.
          rest = before @ n # after \<and> stale hosts n
          \<and> ev2 = map (\<lambda>node. Deconfigure node None) (filter (stale hosts) before)
                   @ [Deconfigure n (Some err)]
          \<and> r2 = Some (Wrap err (''unable to deconfigure instance with node '' @ nodeName n))"
        then obtain before n after err where
          r: "rest = before @ n # after" "stale hosts n"
          "ev2 = map (\<lambda>node. Deconfigure node None) (filter (stale hosts) before)
                   @ [Deconfigure n (Some err)]"
          "r2 = Some (Wrap err (''unable to deconfigure instance with node '' @ nodeName n))"
          by blast
        with out True have "node # rest = (node # before) @ n # after \<and> stale hosts n
          \<and> evs = map (\<lambda>node. Deconfigure node None) (filter (stale hosts) (node # before))
                   @ [Deconfigure n (Some err)]
          \<and> res = Some (Wrap err (''unable to deconfigure instance with node '' @ nodeName n))"
          by simp
        then show ?thesis by blast
      qed
    qed
  qed
qed


lemma reconcileNodes_cases [consumes 3, case_names empty signer conf deconf complete]:
  assumes parse: "parseHosts e (Data cm) = Returns (hosts, None)"
    and list: "client_List e s = (Inr nodes, s1)"
    and run: "reconcileNodes e cm s = Returns (res, s', evs)"
  obtains
    (empty) "hosts = []"
      "filter (\<lambda>node. Annotations node BYOHAnnotation = Some ''true'') nodes = []"
      "res = None" "s' = s1" "evs = [ListNodes None]"
  | (signer) err where
      "evs = [ListNodes None, LoadCredential (signerName e) (Some err)]"
      "res = Some (Wrap err ''unable to create signer from private key secret'')"
  | (conf) before host after err where
      "hosts = before @ host # after" "configuredNode e nodes host = None"
      "evs = [ListNodes None, LoadCredential (signerName e) None]
             @ map (decision e nodes) before
             @ [Configure host (instanceAnnotations host) (Some err), setupFailure host]"
      "res = Some (Wrap (Wrap err ''error configuring node'')
                     (''error configuring host with address '' @ Address host))"
  | (deconf) before node after err where
      "nodes = before @ node # after" "stale hosts node"
      "evs = [ListNodes None, LoadCredential (signerName e) None]
             @ map (decision e nodes) hosts
             @ map (\<lambda>node. Deconfigure node None) (filter (stale hosts) before)
             @ [Deconfigure node (Some err)]"
      "res = Some (Wrap (Wrap err (''unable to deconfigure instance with node '' @ nodeName node))
                     ''error removing undesired nodes from cluster'')"
  | (complete) tres where
      "evs = [ListNodes None, LoadCredential (signerName e) None]
             @ map (decision e nodes) hosts
             @ map (\<lambda>node. Deconfigure node None) (filter (stale hosts) nodes)
             @ [TelemetryConfigure tres]"
      "res = map_option (\<lambda>err. Wrap err ''unable to configure Prometheus'') tres"
proof (cases "length hosts = 0
    \<and> length (filter (\<lambda>node. Annotations node BYOHAnnotation = Some ''true'') nodes) = 0")
  case True
  with parse list run have "res = None" "s' = s1" "evs = [ListNodes None]"
    by (simp_all add: reconcileNodes_def)
  with True show thesis by (intro empty) simp_all
next
  case False
  obtain r2 s2 where sg: "signer_Create e (signerName e) s1 = (r2, s2)"
    by (cases "signer_Create e (signerName e) s1") auto
  show thesis
  proof (cases r2)
    case (Some err)
    with parse list run False sg
    have "evs = [ListNodes None, LoadCredential (signerName e) (Some err)]"
      "res = Some (Wrap err ''unable to create signer from private key secret'')"
      by (auto simp add: reconcileNodes_def)
    then show thesis by (rule signer)
  next
    case None
    note r2 = None
    obtain r3 s3 ev3 where cf: "configureHosts e hosts nodes s2 = (r3, s3, ev3)"
      by (cases "configureHosts e hosts nodes s2") auto
    show thesis
    proof (cases r3)
      case (Some err3)
      with parse list run False sg r2 cf
      have out: "res = r3" "evs = [ListNodes None, LoadCredential (signerName e) None] @ ev3"
        by (auto simp add: reconcileNodes_def)
      from configureHosts_shape [OF cf] Some
      obtain before host after err where
        f: "hosts = before @ host # after" "configuredNode e nodes host = None"
        and ev3: "ev3 = map (decision e nodes) before
                 @ [Configure host (instanceAnnotations host) (Some err), setupFailure host]"
        and r3: "r3 = Some (Wrap (Wrap err ''error configuring node'')
                        (''error configuring host with address '' @ Address host))"
        by blast
      show thesis
        by (rule conf [OF f]) (simp_all only: out ev3 r3 append_assoc)
    next
      case None
      note r3 = None
      with configureHosts_shape [OF cf] have ev3: "ev3 = map (decision e nodes) hosts"
        by auto
      obtain r4 s4 ev4 where dc: "deconfigureInstances e hosts nodes s3 = (r4, s4, ev4)"
        by (cases "deconfigureInstances e hosts nodes s3") auto
      show thesis
      proof (cases r4)
        case (Some err4)
        with parse list run False sg r2 cf r3 dc
        have out: "res = Some (Wrap err4 ''error removing undesired nodes from cluster'')"
          "evs = [ListNodes None, LoadCredential (signerName e) None] @ ev3 @ ev4"
          by (auto simp add: reconcileNodes_def)
        from deconfigureInstances_shape [OF dc] Some
        obtain before node after err where
          f: "nodes = before @ node # after" "stale hosts node"
          and ev4: "ev4 = map (\<lambda>node. Deconfigure node None) (filter (stale hosts) before)
                   @ [Deconfigure node (Some err)]"
          and r4: "r4 = Some (Wrap err (''unable to deconfigure instance with node '' @ nodeName node))"
          by blast
        from r4 Some
        have err4: "err4 = Wrap err (''unable to deconfigure instance with node '' @ nodeName node)"
          by simp
        show thesis
          by (rule deconf [OF f]) (simp_all only: out ev3 ev4 err4 append_assoc)
      next
        case None
        note r4 = None
        with deconfigureInstances_shape [OF dc]
        have ev4: "ev4 = map (\<lambda>node. Deconfigure node None) (filter (stale hosts) nodes)"
          by auto
        obtain r5 s5 where pc: "prometheus_Configure e s4 = (r5, s5)"
          by (cases "prometheus_Configure e s4") auto
        from parse list run False sg r2 cf r3 dc r4 pc
        have "evs = [ListNodes None, LoadCredential (signerName e) None] @ ev3 @ ev4
                     @ [TelemetryConfigure r5]
              \<and> res = map_option (\<lambda>err. Wrap err ''unable to configure Prometheus'') r5"
          by (cases r5) (auto simp add: reconcileNodes_def)
        then show thesis
          by (intro complete [of r5]) (simp_all only: ev3 ev4 append_assoc)
      qed
    qed
  qed
qed

lemma targets_append: "targets (xs @ ys) = targets xs @ targets ys"
  by (induction xs) (simp_all split: option.splits)

lemma targets_decisions: "targets (map (decision e nodes) hosts) = map Host hosts"
  by (induction hosts) (simp_all add: decision_def split: option.splits)

lemma targets_deconfigured: "targets (map (\<lambda>node. Deconfigure node res) nodes) = map Member nodes"
  by (induction nodes) simp_all

lemma Configure_in_decisions:
  "Configure host annotations out \<in> decision e nodes ` X \<longleftrightarrow>
     host \<in> X \<and> annotations = instanceAnnotations host \<and> out = None
     \<and> configuredNode e nodes host = None"
  by (auto simp add: decision_def image_iff split: option.splits)

lemma Skip_in_decisions:
  "Skip host node \<in> decision e nodes ` X \<longleftrightarrow>
     host \<in> X \<and> configuredNode e nodes host = Some node"
  by (auto simp add: decision_def image_iff split: option.splits)

lemma Deconfigure_in_decisions:
  "Deconfigure node out \<notin> decision e nodes ` X"
  by (auto simp add: decision_def split: option.splits)

lemma failed_decisions: "ev \<in> decision e nodes ` X \<Longrightarrow> \<not> failed ev"
  by (auto simp add: decision_def split: option.splits)

lemma Deconfigure_in_deconfigured:
  "Deconfigure node out \<in> (\<lambda>node. Deconfigure node None) ` X \<longleftrightarrow> node \<in> X \<and> out = None"
  by (auto simp add: image_iff)

lemma Configure_in_deconfigured:
  "Configure host annotations out \<notin> (\<lambda>node. Deconfigure node res) ` X"
  by auto

lemma Skip_in_deconfigured:
  "Skip host node \<notin> (\<lambda>n. Deconfigure n res) ` X"
  by auto

lemmas event_membership =
  Configure_in_decisions Skip_in_decisions Deconfigure_in_decisions
  Deconfigure_in_deconfigured Configure_in_deconfigured Skip_in_deconfigured

lemma stale_byoh_true:
  assumes marker: "\<forall>node\<in>set nodes. Annotations node BYOHAnnotation \<noteq> None \<longrightarrow>
                   Annotations node BYOHAnnotation = Some ''true''"
  shows "filter (stale hosts) nodes =
      filter (\<lambda>node. \<not> hasAssociatedInstance node hosts)
        (filter (\<lambda>node. Annotations node BYOHAnnotation = Some ''true'') nodes)"
proof -
  have "stale hosts node \<longleftrightarrow>
          Annotations node BYOHAnnotation = Some ''true'' \<and> \<not> hasAssociatedInstance node hosts"
    if "node \<in> set nodes" for node
  proof -
    from marker that
    have "Annotations node BYOHAnnotation \<noteq> None \<longrightarrow> Annotations node BYOHAnnotation = Some ''true''"
      by (rule bspec)
    then show ?thesis unfolding stale_def by (cases "Annotations node BYOHAnnotation") simp_all
  qed
  then show ?thesis
    unfolding filter_filter by (intro filter_cong refl)
qed

section \<open>Properties of one reconciliation pass\<close>

text \<open>
  C7. When parsing yields no host and no listed node carries the BYOH annotation with
  the value \<^verbatim>\<open>true\<close>, \<^verbatim>\<open>reconcileNodes\<close> returns nil right after listing the nodes: the
  list call that establishes the premise is the only event of the pass, so no signer is
  created, no instance is configured or deconfigured, and Prometheus is not configured.
\<close>

theorem empty_pass_is_noop:
  assumes parse: "parseHosts e (Data cm) = Returns ([], None)"
    and list: "client_List e s = (Inr nodes, s1)"
    and none: "\<forall>node\<in>set nodes. Annotations node BYOHAnnotation \<noteq> Some ''true''"
  shows "reconcileNodes e cm s = Returns (None, s1, [ListNodes None])"
proof -
  from none have "filter (\<lambda>node. Annotations node BYOHAnnotation = Some ''true'') nodes = []"
    by (induction nodes) auto
  with parse list show ?thesis
    by (simp add: reconcileNodes_def)
qed

text \<open>C7, witness: a cluster with one Linux node and an empty ConfigMap.\<close>

theorem empty_pass_is_noop_witness:
  "reconcileNodes (sample_env [sample_node ''linux-1'' Map.empty ''10.0.0.7''] [] [])
     (sample_cm []) [] = Returns (None, [], [ListNodes None])"
  using empty_pass_is_noop [of "sample_env [sample_node ''linux-1'' Map.empty ''10.0.0.7''] [] []"
      "sample_cm []" "[]" "[sample_node ''linux-1'' Map.empty ''10.0.0.7'']" "[]"]
  by (simp add: sample_defs)



text \<open>
  C1, as stated, fails on the code. A pass with two hosts in which configuring the first
  fails never reaches the second host. And in a pass where every call succeeds, a node
  whose BYOH annotation is present with the value \<^verbatim>\<open>false\<close> is deconfigured, although it
  is neither a host nor a member whose marker is true.
\<close>

theorem coverage_counterexample:
  "parseHosts (sample_env [] [''10.0.0.1''] []) (Data (sample_cm (take 2 sample_entries)))
     = Returns ([admin ''10.0.0.1'', admin ''10.0.0.2''], None)
   \<and> reconcileNodes (sample_env [] [''10.0.0.1''] []) (sample_cm (take 2 sample_entries)) []
     = Returns (Some (Wrap (Wrap (External ''ssh failed'') ''error configuring node'')
                        ''error configuring host with address 10.0.0.1''),
                [],
                [ListNodes None, sample_credential,
                 Configure (admin ''10.0.0.1'') (instanceAnnotations (admin ''10.0.0.1''))
                   (Some (External ''ssh failed'')),
                 setupFailure (admin ''10.0.0.1'')])
   \<and> Annotations (sample_node ''win-old'' [BYOHAnnotation \<mapsto> ''false''] ''10.0.0.8'') BYOHAnnotation
       \<noteq> Some ''true''
   \<and> reconcileNodes
       (sample_env [sample_node ''win-old'' [BYOHAnnotation \<mapsto> ''false''] ''10.0.0.8''] [] [])
       (sample_cm (take 1 sample_entries)) []
     = Returns (None, [],
                [ListNodes None, sample_credential,
                 Configure (admin ''10.0.0.1'') (instanceAnnotations (admin ''10.0.0.1'')) None,
                 Deconfigure (sample_node ''win-old'' [BYOHAnnotation \<mapsto> ''false''] ''10.0.0.8'') None,
                 TelemetryConfigure None])"
  by (simp add: sample_defs)

text \<open>
  C1, amended. In a pass in which no call failed, over a node list in which every BYOH
  annotation that is present has the value \<^verbatim>\<open>true\<close>, the targets of the \<open>Configure\<close>,
  \<open>Skip\<close> and \<open>Deconfigure\<close> events are, in this order and each once: every parsed host,
  then every node whose marker is true and that is associated with no host.
\<close>

theorem coverage_of_successful_pass:
  assumes parse: "parseHosts e (Data cm) = Returns (hosts, None)"
    and list: "client_List e s = (Inr nodes, s1)"
    and run: "reconcileNodes e cm s = Returns (res, s', evs)"
    and marker: "\<forall>node\<in>set nodes. Annotations node BYOHAnnotation \<noteq> None \<longrightarrow>
                   Annotations node BYOHAnnotation = Some ''true''"
    and ok: "\<forall>ev\<in>set evs. \<not> failed ev"
  shows "targets evs =
           map Host hosts
           @ map Member (filter (\<lambda>node. \<not> hasAssociatedInstance node hosts)
                (filter (\<lambda>node. Annotations node BYOHAnnotation = Some ''true'') nodes))"
proof -
  note st = stale_byoh_true [OF marker, of hosts]
  from parse list run show ?thesis
  proof (cases rule: reconcileNodes_cases)
    case empty
    show ?thesis unfolding empty(5) empty(1) empty(2) by simp
  next
    case (signer err)
    then have "LoadCredential (signerName e) (Some err) \<in> set evs" by simp
    with ok have "\<not> failed (LoadCredential (signerName e) (Some err))" by (rule bspec)
    then show ?thesis by simp
  next
    case (conf before host after err)
    then have "Configure host (instanceAnnotations host) (Some err) \<in> set evs" by simp
    with ok have "\<not> failed (Configure host (instanceAnnotations host) (Some err))" by (rule bspec)
    then show ?thesis by simp
  next
    case (deconf before node after err)
    then have "Deconfigure node (Some err) \<in> set evs" by simp
    with ok have "\<not> failed (Deconfigure node (Some err))" by (rule bspec)
    then show ?thesis by simp
  next
    case (complete tres)
    have "targets evs = map Host hosts @ map Member (filter (stale hosts) nodes)"
      unfolding complete(1)
      by (simp add: targets_append targets_decisions targets_deconfigured)
    then show ?thesis by (simp only: st)
  qed
qed

text \<open>
  C1, witness: two hosts, one already configured, and three nodes, one of them stale
  and one without the marker.
\<close>

theorem coverage_of_successful_pass_witness:
  "reconcileNodes (sample_env sample_nodes [] []) (sample_cm (take 2 sample_entries)) []
     = Returns (None, [],
         [ListNodes None, sample_credential,
          Skip (admin ''10.0.0.1'') (sample_node ''win-1'' byohConfigured ''10.0.0.1''),
          Configure (admin ''10.0.0.2'') (instanceAnnotations (admin ''10.0.0.2'')) None,
          Deconfigure (sample_node ''win-stale'' byoh ''10.0.0.9'') None,
          TelemetryConfigure None])
   \<and> targets
         [ListNodes None, sample_credential,
          Skip (admin ''10.0.0.1'') (sample_node ''win-1'' byohConfigured ''10.0.0.1''),
          Configure (admin ''10.0.0.2'') (instanceAnnotations (admin ''10.0.0.2'')) None,
          Deconfigure (sample_node ''win-stale'' byoh ''10.0.0.9'') None,
          TelemetryConfigure None]
       = [Host (admin ''10.0.0.1''), Host (admin ''10.0.0.2''),
          Member (sample_node ''win-stale'' byoh ''10.0.0.9'')]"
proof -
  let ?e = "sample_env sample_nodes [] [] :: (ConfigMap list) env"
  let ?evs = "[ListNodes None, sample_credential,
          Skip (admin ''10.0.0.1'') (sample_node ''win-1'' byohConfigured ''10.0.0.1''),
          Configure (admin ''10.0.0.2'') (instanceAnnotations (admin ''10.0.0.2'')) None,
          Deconfigure (sample_node ''win-stale'' byoh ''10.0.0.9'') None,
          TelemetryConfigure None]"
  have parse: "parseHosts ?e (Data (sample_cm (take 2 sample_entries)))
     = Returns ([admin ''10.0.0.1'', admin ''10.0.0.2''], None)"
    by (simp add: sample_defs)
  have list: "client_List ?e [] = (Inr sample_nodes, [])"
    by (simp add: sample_env_def)
  have run: "reconcileNodes ?e (sample_cm (take 2 sample_entries)) [] = Returns (None, [], ?evs)"
    by (simp add: sample_defs sample_nodes_def)
  have marker: "\<forall>node\<in>set sample_nodes. Annotations node BYOHAnnotation \<noteq> None \<longrightarrow>
                   Annotations node BYOHAnnotation = Some ''true''"
    by (simp add: sample_nodes_def sample_node_def byoh_def byohConfigured_def BYOHAnnotation_def)
  have ok: "\<forall>ev\<in>set ?evs. \<not> failed ev"
    by (simp add: sample_credential_def)
  have "filter (\<lambda>node. \<not> hasAssociatedInstance node [admin ''10.0.0.1'', admin ''10.0.0.2''])
          (filter (\<lambda>node. Annotations node BYOHAnnotation = Some ''true'') sample_nodes)
        = [sample_node ''win-stale'' byoh ''10.0.0.9'']"
    by (simp add: sample_nodes_def sample_node_def byoh_def byohConfigured_def BYOHAnnotation_def
        hasAssociatedInstance_def admin_def NewInstanceInfo_def)
  with coverage_of_successful_pass [OF parse list run marker ok]
  have "targets ?evs = [Host (admin ''10.0.0.1''), Host (admin ''10.0.0.2''),
          Member (sample_node ''win-stale'' byoh ''10.0.0.9'')]"
    by simp
  with run show ?thesis by (intro conjI)
qed

text \<open>
  C3, as stated, fails on the code: with two stale members \<^verbatim>\<open>m1\<close> and \<^verbatim>\<open>m2\<close>, a failure
  to deconfigure \<^verbatim>\<open>m1\<close> ends the pass, and \<^verbatim>\<open>m2\<close> is not attempted.
\<close>

theorem deconfigure_independence_counterexample:
  "stale [] (sample_node ''m1'' byoh ''10.0.0.8'')
   \<and> stale [] (sample_node ''m2'' byoh ''10.0.0.9'')
   \<and> reconcileNodes (sample_env stale_nodes [] [''m1'']) (sample_cm []) []
     = Returns (Some (Wrap (Wrap (External ''drain failed'')
                              ''unable to deconfigure instance with node m1'')
                        ''error removing undesired nodes from cluster''),
                [],
                [ListNodes None, sample_credential,
                 Deconfigure (sample_node ''m1'' byoh ''10.0.0.8'') (Some (External ''drain failed''))])"
  by (simp add: sample_defs stale_nodes_def)

text \<open>
  C3, amended. If the deconfigure of a node fails, \<^verbatim>\<open>deconfigureInstances\<close> returns at
  once: the stale nodes before it in list order have been deconfigured, the failing call
  is the last event of the pass, no node after it is attempted, and the pass returns the
  error wrapped with the name of the node.
\<close>

theorem deconfigure_stops_at_first_failure:
  assumes parse: "parseHosts e (Data cm) = Returns (hosts, None)"
    and list: "client_List e s = (Inr nodes, s1)"
    and run: "reconcileNodes e cm s = Returns (res, s', evs)"
    and fails: "Deconfigure node (Some err) \<in> set evs"
  shows "\<exists>before after.
           nodes = before @ node # after
           \<and> evs = [ListNodes None, LoadCredential (signerName e) None]
                    @ map (decision e nodes) hosts
                    @ map (\<lambda>node. Deconfigure node None) (filter (stale hosts) before)
                    @ [Deconfigure node (Some err)]
           \<and> res = Some (Wrap (Wrap err (''unable to deconfigure instance with node '' @ nodeName node))
                           ''error removing undesired nodes from cluster'')"
proof -
  from parse list run show ?thesis
  proof (cases rule: reconcileNodes_cases)
    case empty
    with fails show ?thesis by simp
  next
    case (signer err')
    with fails show ?thesis by simp
  next
    case (conf before h after err')
    with fails show ?thesis by (simp add: event_membership setupFailure_def)
  next
    case (deconf before n after err')
    from deconf(3) fails have same: "n = node \<and> err' = err"
      by (simp add: event_membership)
    with deconf(1,3,4)
    have "nodes = before @ node # after
           \<and> evs = [ListNodes None, LoadCredential (signerName e) None]
                    @ map (decision e nodes) hosts
                    @ map (\<lambda>node. Deconfigure node None) (filter (stale hosts) before)
                    @ [Deconfigure node (Some err)]
           \<and> res = Some (Wrap (Wrap err (''unable to deconfigure instance with node '' @ nodeName node))
                           ''error removing undesired nodes from cluster'')"
      by simp
    then show ?thesis
      by (intro exI [of _ before] exI [of _ after])
  next
    case (complete tres)
    with fails show ?thesis by (simp add: event_membership)
  qed
qed

text \<open>C3, witness: the two stale members above.\<close>

theorem deconfigure_stops_at_first_failure_witness:
  "Deconfigure (sample_node ''m1'' byoh ''10.0.0.8'') (Some (External ''drain failed''))
     \<in> set [ListNodes None, sample_credential,
             Deconfigure (sample_node ''m1'' byoh ''10.0.0.8'') (Some (External ''drain failed''))]
   \<and> (\<exists>before after.
         stale_nodes = before @ sample_node ''m1'' byoh ''10.0.0.8'' # after
         \<and> [ListNodes None, sample_credential,
             Deconfigure (sample_node ''m1'' byoh ''10.0.0.8'') (Some (External ''drain failed''))]
           = [ListNodes None, LoadCredential (signerName (sample_env stale_nodes [] [''m1''])) None]
             @ map (decision (sample_env stale_nodes [] [''m1'']) stale_nodes) []
             @ map (\<lambda>node. Deconfigure node None) (filter (stale []) before)
             @ [Deconfigure (sample_node ''m1'' byoh ''10.0.0.8'') (Some (External ''drain failed''))])"
proof -
  let ?e = "sample_env stale_nodes [] [''m1''] :: (ConfigMap list) env"
  let ?evs = "[ListNodes None, sample_credential,
             Deconfigure (sample_node ''m1'' byoh ''10.0.0.8'') (Some (External ''drain failed''))]"
  have parse: "parseHosts ?e (Data (sample_cm [])) = Returns ([], None)"
    by (simp add: sample_defs)
  have list: "client_List ?e [] = (Inr stale_nodes, [])"
    by (simp add: sample_env_def)
  have run: "reconcileNodes ?e (sample_cm []) []
     = Returns (Some (Wrap (Wrap (External ''drain failed'')
                              ''unable to deconfigure instance with node m1'')
                        ''error removing undesired nodes from cluster''), [], ?evs)"
    by (simp add: sample_defs stale_nodes_def)
  have fails: "Deconfigure (sample_node ''m1'' byoh ''10.0.0.8'') (Some (External ''drain failed''))
     \<in> set ?evs"
    by simp
  from deconfigure_stops_at_first_failure [OF parse list run fails]
  obtain before after where
    "stale_nodes = before @ sample_node ''m1'' byoh ''10.0.0.8'' # after"
    "?evs = [ListNodes None, LoadCredential (signerName ?e) None]
             @ map (decision ?e stale_nodes) []
             @ map (\<lambda>node. Deconfigure node None) (filter (stale []) before)
             @ [Deconfigure (sample_node ''m1'' byoh ''10.0.0.8'') (Some (External ''drain failed''))]"
    by (elim exE conjE)
  then have "\<exists>before after.
         stale_nodes = before @ sample_node ''m1'' byoh ''10.0.0.8'' # after
         \<and> ?evs = [ListNodes None, LoadCredential (signerName ?e) None]
             @ map (decision ?e stale_nodes) []
             @ map (\<lambda>node. Deconfigure node None) (filter (stale []) before)
             @ [Deconfigure (sample_node ''m1'' byoh ''10.0.0.8'') (Some (External ''drain failed''))]"
    by (intro exI [of _ before] exI [of _ after] conjI)
  with fails show ?thesis by (intro conjI)
qed

text \<open>
  C4, as stated, fails on the code: \<^verbatim>\<open>findNode\<close> returns the first node with a matching
  address. When an earlier node with the same address lacks the version annotation, the
  host is configured although a later node with that address carries it.
\<close>

theorem configured_member_counterexample:
  "sample_node ''win-1'' byohConfigured ''10.0.0.1'' \<in> set twin_nodes
   \<and> Address (admin ''10.0.0.1'') \<in> set (Addresses (sample_node ''win-1'' byohConfigured ''10.0.0.1''))
   \<and> Annotations (sample_node ''win-1'' byohConfigured ''10.0.0.1'')
        (VersionAnnotation (sample_env twin_nodes [] [])) \<noteq> None
   \<and> reconcileNodes (sample_env twin_nodes [] []) (sample_cm (take 1 sample_entries)) []
     = Returns (None, [],
         [ListNodes None, sample_credential,
          Configure (admin ''10.0.0.1'') (instanceAnnotations (admin ''10.0.0.1'')) None,
          TelemetryConfigure None])"
  by (simp add: sample_defs twin_nodes_def)

text \<open>
  C4, amended. For a parsed host, if the node that \<^verbatim>\<open>findNode\<close> returns for its address
  (the first node in list order, among all nodes, one of whose addresses equals it)
  carries the version annotation, then \<^verbatim>\<open>ensureInstanceIsConfigured\<close> returns nil with a
  \<open>Skip\<close> and without a call, no \<open>Configure\<close> for that host occurs in the pass, and the
  \<open>Skip\<close> occurs in every pass that loaded the credential and had no failing \<open>Configure\<close>.
\<close>

theorem configured_member_is_skipped:
  assumes parse: "parseHosts e (Data cm) = Returns (hosts, None)"
    and list: "client_List e s = (Inr nodes, s1)"
    and run: "reconcileNodes e cm s = Returns (res, s', evs)"
    and host: "host \<in> set hosts"
    and found: "findNode (Address host) nodes = Some node"
    and version: "Annotations node (VersionAnnotation e) \<noteq> None"
  shows "(\<forall>s0. ensureInstanceIsConfigured e host nodes s0 = (None, s0, [Skip host node]))
       \<and> (\<forall>annotations out. Configure host annotations out \<notin> set evs)
       \<and> (LoadCredential (signerName e) None \<in> set evs
            \<and> (\<forall>h annotations err. Configure h annotations (Some err) \<notin> set evs)
          \<longrightarrow> Skip host node \<in> set evs)"
proof -
  from found version have cn: "configuredNode e nodes host = Some node"
    by (simp add: configuredNode_def)
  from found version
  have a: "\<forall>s0. ensureInstanceIsConfigured e host nodes s0 = (None, s0, [Skip host node])"
    by (simp add: ensureInstanceIsConfigured_def)
  from parse list run
  have b: "Configure host annotations out \<notin> set evs" for annotations out
  proof (cases rule: reconcileNodes_cases)
    case empty
    show ?thesis unfolding empty(5) by simp
  next
    case (signer err')
    show ?thesis unfolding signer(1) by simp
  next
    case (conf before h after err')
    with cn have "h \<noteq> host" by auto
    then show ?thesis unfolding conf(3)
      by (simp add: event_membership setupFailure_def cn)
  next
    case (deconf before n after err')
    show ?thesis unfolding deconf(3)
      by (simp add: event_membership cn)
  next
    case (complete tres)
    show ?thesis unfolding complete(1)
      by (simp add: event_membership cn)
  qed
  from parse list run
  have c: "LoadCredential (signerName e) None \<in> set evs
            \<and> (\<forall>h annotations err. Configure h annotations (Some err) \<notin> set evs)
          \<longrightarrow> Skip host node \<in> set evs"
  proof (cases rule: reconcileNodes_cases)
    case empty
    show ?thesis unfolding empty(5) by simp
  next
    case (signer err')
    show ?thesis unfolding signer(1) by simp
  next
    case (conf before h after err')
    then have "Configure h (instanceAnnotations h) (Some err') \<in> set evs" by simp
    then have "\<not> (\<forall>h annotations err. Configure h annotations (Some err) \<notin> set evs)"
      by (intro notI) (elim allE [of _ h] allE [of _ "instanceAnnotations h"] allE [of _ err'] notE)
    then show ?thesis by (intro impI) (elim conjE notE)
  next
    case (deconf before n after err')
    show ?thesis unfolding deconf(3)
      by (simp add: event_membership cn host)
  next
    case (complete tres)
    show ?thesis unfolding complete(1)
      by (simp add: event_membership cn host)
  qed
  from b have b': "\<forall>annotations out. Configure host annotations out \<notin> set evs"
    by (intro allI)
  show ?thesis
    by (rule conjI [OF a conjI [OF b' c]])
qed

text \<open>C4, witness: the host \<^verbatim>\<open>10.0.0.1\<close>, whose node carries the version annotation.\<close>

theorem configured_member_is_skipped_witness:
  "reconcileNodes (sample_env sample_nodes [] []) (sample_cm (take 2 sample_entries)) []
     = Returns (None, [],
         [ListNodes None, sample_credential,
          Skip (admin ''10.0.0.1'') (sample_node ''win-1'' byohConfigured ''10.0.0.1''),
          Configure (admin ''10.0.0.2'') (instanceAnnotations (admin ''10.0.0.2'')) None,
          Deconfigure (sample_node ''win-stale'' byoh ''10.0.0.9'') None,
          TelemetryConfigure None])
   \<and> findNode (Address (admin ''10.0.0.1'')) sample_nodes
       = Some (sample_node ''win-1'' byohConfigured ''10.0.0.1'')
   \<and> (\<forall>s0. ensureInstanceIsConfigured (sample_env sample_nodes [] []) (admin ''10.0.0.1'')
               sample_nodes s0
             = (None, s0, [Skip (admin ''10.0.0.1'') (sample_node ''win-1'' byohConfigured ''10.0.0.1'')]))
   \<and> Skip (admin ''10.0.0.1'') (sample_node ''win-1'' byohConfigured ''10.0.0.1'')
       \<in> set [ListNodes None, sample_credential,
          Skip (admin ''10.0.0.1'') (sample_node ''win-1'' byohConfigured ''10.0.0.1''),
          Configure (admin ''10.0.0.2'') (instanceAnnotations (admin ''10.0.0.2'')) None,
          Deconfigure (sample_node ''win-stale'' byoh ''10.0.0.9'') None,
          TelemetryConfigure None]"
proof -
  let ?e = "sample_env sample_nodes [] [] :: (ConfigMap list) env"
  let ?n = "sample_node ''win-1'' byohConfigured ''10.0.0.1''"
  let ?evs = "[ListNodes None, sample_credential,
          Skip (admin ''10.0.0.1'') ?n,
          Configure (admin ''10.0.0.2'') (instanceAnnotations (admin ''10.0.0.2'')) None,
          Deconfigure (sample_node ''win-stale'' byoh ''10.0.0.9'') None,
          TelemetryConfigure None]"
  have parse: "parseHosts ?e (Data (sample_cm (take 2 sample_entries)))
     = Returns ([admin ''10.0.0.1'', admin ''10.0.0.2''], None)"
    by (simp add: sample_defs)
  have list: "client_List ?e [] = (Inr sample_nodes, [])"
    by (simp add: sample_env_def)
  have run: "reconcileNodes ?e (sample_cm (take 2 sample_entries)) [] = Returns (None, [], ?evs)"
    by (simp add: sample_defs sample_nodes_def)
  have host: "admin ''10.0.0.1'' \<in> set [admin ''10.0.0.1'', admin ''10.0.0.2'']"
    by simp
  have found: "findNode (Address (admin ''10.0.0.1'')) sample_nodes = Some ?n"
    by (simp add: sample_nodes_def sample_node_def admin_def NewInstanceInfo_def)
  have version: "Annotations ?n (VersionAnnotation ?e) \<noteq> None"
    by (simp add: sample_node_def sample_env_def byohConfigured_def)
  have reached: "LoadCredential (signerName ?e) None \<in> set ?evs
     \<and> (\<forall>h annotations err. Configure h annotations (Some err) \<notin> set ?evs)"
    by (simp add: sample_credential_def signerName_def sample_env_def)
  note skipped = configured_member_is_skipped [OF parse list run host found version]
  from skipped have a: "\<forall>s0. ensureInstanceIsConfigured ?e (admin ''10.0.0.1'') sample_nodes s0
             = (None, s0, [Skip (admin ''10.0.0.1'') ?n])"
    by (elim conjE)
  from skipped have "LoadCredential (signerName ?e) None \<in> set ?evs
     \<and> (\<forall>h annotations err. Configure h annotations (Some err) \<notin> set ?evs)
     \<longrightarrow> Skip (admin ''10.0.0.1'') ?n \<in> set ?evs"
    by (elim conjE)
  from this reached have b: "Skip (admin ''10.0.0.1'') ?n \<in> set ?evs"
    by (rule mp)
  from run found a b show ?thesis by (intro conjI)
qed

section \<open>Properties of descriptor parsing\<close>

lemma SplitN_two:
  "SplitN data (CHR ''='') (Suc (Suc 0)) =
     (if CHR ''='' \<in> set data
      then [takeWhile (\<lambda>c. c \<noteq> CHR ''='') data, tl (dropWhile (\<lambda>c. c \<noteq> CHR ''='') data)]
      else [data])"
  by simp

lemma username_prefix:
  assumes "take 9 data = ''username=''"
  shows "CHR ''='' \<in> set data"
    and "takeWhile (\<lambda>c. c \<noteq> CHR ''='') data = ''username''"
    and "tl (dropWhile (\<lambda>c. c \<noteq> CHR ''='') data) = drop 9 data"
proof -
  have "data = take 9 data @ drop 9 data" by simp
  with assms have d: "data = ''username='' @ drop 9 data" by simp
  show "CHR ''='' \<in> set data" by (subst d) simp
  show "takeWhile (\<lambda>c. c \<noteq> CHR ''='') data = ''username''" by (subst d) simp
  show "tl (dropWhile (\<lambda>c. c \<noteq> CHR ''='') data) = drop 9 data"
    by (subst d) simp
qed

lemma username_prefix_iff:
  "take 9 data = ''username='' \<longleftrightarrow>
     CHR ''='' \<in> set data \<and> takeWhile (\<lambda>c. c \<noteq> CHR ''='') data = ''username''"
proof
  assume "take 9 data = ''username=''"
  then show "CHR ''='' \<in> set data \<and> takeWhile (\<lambda>c. c \<noteq> CHR ''='') data = ''username''"
    by (simp add: username_prefix)
next
  assume a: "CHR ''='' \<in> set data \<and> takeWhile (\<lambda>c. c \<noteq> CHR ''='') data = ''username''"
  let ?rest = "dropWhile (\<lambda>c. c \<noteq> CHR ''='') data"
  from a have ne: "?rest \<noteq> []" by (simp add: dropWhile_eq_Nil_conv)
  then have "\<not> (hd ?rest \<noteq> CHR ''='')" by (rule hd_dropWhile)
  with ne have r: "?rest = CHR ''='' # tl ?rest" by (cases ?rest) simp_all
  have "data = takeWhile (\<lambda>c. c \<noteq> CHR ''='') data @ ?rest" by simp
  with a r have "data = ''username'' @ CHR ''='' # tl ?rest" by simp
  then have "take 9 data = take 9 (''username'' @ CHR ''='' # tl ?rest)" by simp
  then show "take 9 data = ''username=''" by simp
qed

lemma parseHosts_loop_wellFormed:
  "list_all (wellFormed e) before \<Longrightarrow>
     parseHosts_loop e (before @ rest) hosts = parseHosts_loop e rest (hosts @ map instanceOf before)"
proof (induction before arbitrary: hosts)
  case Nil
  then show ?case by simp
next
  case (Cons entry before)
  obtain address data where entry: "entry = (address, data)" by (cases entry)
  from Cons.prems entry have v: "validateAddress e address = None" and p: "take 9 data = ''username=''"
    and rest: "list_all (wellFormed e) before"
    by (simp_all add: wellFormed_def [abs_def])
  have split: "SplitN data (CHR ''='') (Suc (Suc 0)) = [''username'', drop 9 data]"
    unfolding SplitN_two using username_prefix [OF p] by simp
  have "parseHosts_loop e ((entry # before) @ rest) hosts
        = parseHosts_loop e (before @ rest) (hosts @ [instanceOf entry])"
    by (simp add: entry v split instanceOf_def del: SplitN.simps)
  also have "\<dots> = parseHosts_loop e rest ((hosts @ [instanceOf entry]) @ map instanceOf before)"
    by (rule Cons.IH [OF rest])
  finally show ?case by simp
qed

lemma parseHosts_loop_invalid_address:
  "validateAddress e address = Some err \<Longrightarrow>
     parseHosts_loop e ((address, data) # rest) hosts
       = Returns ([], Some (Wrap err (''invalid address '' @ address)))"
  by simp

lemma parseHosts_loop_bad_token:
  assumes "validateAddress e address = None"
    and "takeWhile (\<lambda>c. c \<noteq> CHR ''='') data \<noteq> ''username''"
  shows "parseHosts_loop e ((address, data) # rest) hosts
       = Returns (hosts, Some (Errorf (''data for entry '' @ address @ '' has an incorrect format'')))"
proof (cases "CHR ''='' \<in> set data")
  case True
  with assms show ?thesis by (simp add: SplitN_two del: SplitN.simps)
next
  case False
  then have "takeWhile (\<lambda>c. c \<noteq> CHR ''='') data = data"
    by (auto simp add: takeWhile_eq_all_conv)
  with assms False show ?thesis by (simp add: SplitN_two del: SplitN.simps)
qed

text \<open>
  C5, as stated, fails on the code: the value is split at its first \<^verbatim>\<open>=\<close> only, so a
  value with two separators is accepted, the rest after the first one being the name.
\<close>

theorem parseHosts_two_separators_counterexample:
  "count_list ''username=a=b'' (CHR ''='') = 2
   \<and> parseHosts (sample_env [] [] []) [(''10.0.0.1'', ''username=a=b'')]
       = Returns ([NewInstanceInfo ''10.0.0.1'' ''a=b'' ''''], None)"
  by (simp add: sample_defs)

text \<open>
  C5, amended. Parsing accepts a record all of whose entries are well formed (the key
  validates, the value begins with \<^verbatim>\<open>username=\<close>; the name is everything after the first
  \<^verbatim>\<open>=\<close> and may contain further ones). The first entry, in iteration order, whose key
  fails validation or whose first token is not \<^verbatim>\<open>username\<close> makes parsing fail with an
  error that names its address, whatever the entries after it are. For a value other
  than the bare word \<^verbatim>\<open>username\<close>, an entry with a valid key is accepted exactly when its
  value begins with \<^verbatim>\<open>username=\<close>.
\<close>

theorem parseHosts_fail_fast:
  "(list_all (wellFormed e) entries \<longrightarrow>
      parseHosts e entries = Returns (map instanceOf entries, None))
   \<and> (list_all (wellFormed e) before \<and> validateAddress e address = Some err \<longrightarrow>
      parseHosts e (before @ (address, data) # after)
        = Returns ([], Some (Wrap err (''invalid address '' @ address))))
   \<and> (list_all (wellFormed e) before \<and> validateAddress e address = None
        \<and> takeWhile (\<lambda>c. c \<noteq> CHR ''='') data \<noteq> ''username'' \<longrightarrow>
      parseHosts e (before @ (address, data) # after)
        = Returns (map instanceOf before,
                   Some (Errorf (''data for entry '' @ address @ '' has an incorrect format''))))
   \<and> (validateAddress e address = None \<and> data \<noteq> ''username'' \<longrightarrow>
      ((\<exists>hosts. parseHosts e [(address, data)] = Returns (hosts, None))
        \<longleftrightarrow> take 9 data = ''username=''))"
proof (intro conjI impI)
  assume "list_all (wellFormed e) entries"
  from parseHosts_loop_wellFormed [OF this, of "[]" "[]"]
  show "parseHosts e entries = Returns (map instanceOf entries, None)"
    by (simp add: parseHosts_def)
next
  assume "list_all (wellFormed e) before \<and> validateAddress e address = Some err"
  then have b: "list_all (wellFormed e) before" and v: "validateAddress e address = Some err"
    by simp_all
  show "parseHosts e (before @ (address, data) # after)
        = Returns ([], Some (Wrap err (''invalid address '' @ address)))"
    unfolding parseHosts_def parseHosts_loop_wellFormed [OF b]
    by (rule parseHosts_loop_invalid_address [OF v])
next
  assume "list_all (wellFormed e) before \<and> validateAddress e address = None
        \<and> takeWhile (\<lambda>c. c \<noteq> CHR ''='') data \<noteq> ''username''"
  then have b: "list_all (wellFormed e) before" and v: "validateAddress e address = None"
    and t: "takeWhile (\<lambda>c. c \<noteq> CHR ''='') data \<noteq> ''username''"
    by simp_all
  show "parseHosts e (before @ (address, data) # after)
        = Returns (map instanceOf before,
                   Some (Errorf (''data for entry '' @ address @ '' has an incorrect format'')))"
    unfolding parseHosts_def parseHosts_loop_wellFormed [OF b]
    using parseHosts_loop_bad_token [OF v t, of after "[] @ map instanceOf before"]
    by simp
next
  assume "validateAddress e address = None \<and> data \<noteq> ''username''"
  then have v: "validateAddress e address = None" and d: "data \<noteq> ''username''"
    by simp_all
  show "(\<exists>hosts. parseHosts e [(address, data)] = Returns (hosts, None))
        \<longleftrightarrow> take 9 data = ''username=''"
  proof (cases "take 9 data = ''username=''")
    case True
    then have "list_all (wellFormed e) [(address, data)]"
      by (simp add: wellFormed_def v)
    from parseHosts_loop_wellFormed [OF this, of "[]" "[]"] True
    show ?thesis by (simp add: parseHosts_def)
  next
    case False
    have "takeWhile (\<lambda>c. c \<noteq> CHR ''='') data \<noteq> ''username''"
    proof
      assume t: "takeWhile (\<lambda>c. c \<noteq> CHR ''='') data = ''username''"
      with False have "CHR ''='' \<notin> set data" by (simp add: username_prefix_iff)
      then have "takeWhile (\<lambda>c. c \<noteq> CHR ''='') data = data"
        by (auto simp add: takeWhile_eq_all_conv)
      with t d show False by simp
    qed
    from parseHosts_loop_bad_token [OF v this, of "[]" "[]"] False
    show ?thesis by (simp add: parseHosts_def)
  qed
qed

text \<open>
  C5, witness: the three sample entries; the same with an IPv6 key in the middle; the
  same with the value \<^verbatim>\<open>admin\<close> in the middle; a single well-formed entry.
\<close>

theorem parseHosts_fail_fast_witness:
  "parseHosts (sample_env [] [] []) sample_entries
     = Returns ([admin ''10.0.0.1'', admin ''10.0.0.2'', admin ''10.0.0.3''], None)
   \<and> parseHosts (sample_env [] [] [])
       (take 1 sample_entries @ (''::1'', ''username=admin'') # drop 2 sample_entries)
     = Returns ([], Some (Wrap (Errorf ''ipv6 is not supported'') ''invalid address ::1''))
   \<and> parseHosts (sample_env [] [] [])
       (take 1 sample_entries @ (''10.0.0.2'', ''admin'') # drop 2 sample_entries)
     = Returns ([admin ''10.0.0.1''],
                Some (Errorf ''data for entry 10.0.0.2 has an incorrect format''))
   \<and> (\<exists>hosts. parseHosts (sample_env [] [] []) [(''10.0.0.1'', ''username=admin'')]
         = Returns (hosts, None))"
proof -
  let ?e = "sample_env [] [] [] :: (ConfigMap list) env"
  have wf: "list_all (wellFormed ?e) sample_entries" "list_all (wellFormed ?e) (take 1 sample_entries)"
    by (simp_all add: wellFormed_def sample_defs)
  have v6: "validateAddress ?e ''::1'' = Some (Errorf ''ipv6 is not supported'')"
    by (simp add: sample_defs IPv6loopback_def)
  have v2: "validateAddress ?e ''10.0.0.2'' = None"
           "takeWhile (\<lambda>c. c \<noteq> CHR ''='') ''admin'' \<noteq> ''username''"
    by (simp_all add: sample_defs)
  have v1: "validateAddress ?e ''10.0.0.1'' = None" "''username=admin'' \<noteq> ''username''"
           "take 9 ''username=admin'' = ''username=''"
    by (simp_all add: sample_defs)
  note a = parseHosts_fail_fast [of ?e sample_entries]
  note b = parseHosts_fail_fast [of ?e _ "take 1 sample_entries" "''::1''"
      "Errorf ''ipv6 is not supported''" "''username=admin''" "drop 2 sample_entries"]
  note c = parseHosts_fail_fast [of ?e _ "take 1 sample_entries" "''10.0.0.2''" _
      "''admin''" "drop 2 sample_entries"]
  note d = parseHosts_fail_fast [of ?e _ _ "''10.0.0.1''" _ "''username=admin''"]
  from a wf(1) have 1: "parseHosts ?e sample_entries
     = Returns ([admin ''10.0.0.1'', admin ''10.0.0.2'', admin ''10.0.0.3''], None)"
    by (simp add: instanceOf_def sample_entries_def admin_def)
  from b wf(2) v6 have 2: "parseHosts ?e
       (take 1 sample_entries @ (''::1'', ''username=admin'') # drop 2 sample_entries)
     = Returns ([], Some (Wrap (Errorf ''ipv6 is not supported'') ''invalid address ::1''))"
    by simp
  from c wf(2) v2 have 3: "parseHosts ?e
       (take 1 sample_entries @ (''10.0.0.2'', ''admin'') # drop 2 sample_entries)
     = Returns ([admin ''10.0.0.1''],
                Some (Errorf ''data for entry 10.0.0.2 has an incorrect format''))"
    by (simp add: instanceOf_def sample_entries_def admin_def)
  from d v1 have 4: "\<exists>hosts. parseHosts ?e [(''10.0.0.1'', ''username=admin'')]
         = Returns (hosts, None)"
    by simp
  from 1 2 3 4 show ?thesis by (intro conjI)
qed

section \<open>Properties of the bootstrap of the tracking ConfigMap\<close>

text \<open>
  C9, as stated, fails on the code for the startup variant: on NotFound
  \<^verbatim>\<open>ensure\<close> creates, reads again and returns what the second read returned, while
  \<^verbatim>\<open>EnsureWindowsInstancesConfigMap\<close> creates and returns the result of the create without a
  second read.
\<close>

theorem startup_variant_counterexample:
  "ensure (sample_env [] [] []) tracking []
     = ((Some (newConfigMap ''wmco'' InstanceConfigMap), None),
        [newConfigMap ''wmco'' InstanceConfigMap],
        [GetConfigMap tracking, CreateConfigMap (newConfigMap ''wmco'' InstanceConfigMap) None,
         GetConfigMap tracking])
   \<and> EnsureWindowsInstancesConfigMap (sample_env [] [] []) (Some ''kubeconfig'') ''wmco'' []
     = (None, [newConfigMap ''wmco'' InstanceConfigMap],
        [GetConfigMap tracking, CreateConfigMap (newConfigMap ''wmco'' InstanceConfigMap) None])"
  by (simp add: ensure_def EnsureWindowsInstancesConfigMap_def sample_env_def tracking_def
      newConfigMap_def emptyConfigMap_def store_Create_def InstanceConfigMap_def Let_def)

text \<open>
  C9, amended. \<^verbatim>\<open>ensure\<close> returns the ConfigMap that the read returned, with no create, when the
  read succeeds. When the read fails with NotFound it creates the empty ConfigMap of that
  namespace and name, reads again and returns what the second read returned, or the
  error of the create. Every other error of the read is returned as it is, with no
  create. A call that returned a ConfigMap, repeated in the state it left, returns the
  same ConfigMap with one read and no create. \<^verbatim>\<open>EnsureWindowsInstancesConfigMap\<close>, which
  reads and creates through the typed client and returns an error only, creates under
  the same condition: nothing when the read succeeds, the empty ConfigMap on NotFound
  (returning the result of the create), and every other error of the read returned as
  it is.
\<close>

theorem ensure_create_if_absent:
  "(client_Get e nn s = Inr cm \<longrightarrow> ensure e nn s = ((Some cm, None), s, [GetConfigMap nn]))
   \<and> (client_Get e nn s = Inl err \<and> IsNotFound err
        \<and> client_Create e (newConfigMap (Namespace nn) (Name nn)) s = (None, s') \<longrightarrow>
       ensure e nn s =
         ((case client_Get e nn s' of
             Inr created \<Rightarrow> (Some created, None)
           | Inl err' \<Rightarrow> (None, Some err')),
          s',
          [GetConfigMap nn, CreateConfigMap (newConfigMap (Namespace nn) (Name nn)) None,
           GetConfigMap nn]))
   \<and> (client_Get e nn s = Inl err \<and> IsNotFound err
        \<and> client_Create e (newConfigMap (Namespace nn) (Name nn)) s = (Some err', s') \<longrightarrow>
       ensure e nn s =
         ((None, Some err'), s',
          [GetConfigMap nn, CreateConfigMap (newConfigMap (Namespace nn) (Name nn)) (Some err')]))
   \<and> (client_Get e nn s = Inl err \<and> \<not> IsNotFound err \<longrightarrow>
       ensure e nn s = ((Some emptyConfigMap, Some err), s, [GetConfigMap nn]))
   \<and> (ensure e nn s = ((Some cm, None), s', evs) \<longrightarrow>
       ensure e nn s' = ((Some cm, None), s', [GetConfigMap nn]))
   \<and> (kubernetes_NewForConfig e cfg = None
        \<and> clientset_Get e \<lparr>Namespace = namespace, Name = InstanceConfigMap\<rparr> s = Inr cm \<longrightarrow>
       EnsureWindowsInstancesConfigMap e (Some cfg) namespace s
         = (None, s, [GetConfigMap \<lparr>Namespace = namespace, Name = InstanceConfigMap\<rparr>]))
   \<and> (kubernetes_NewForConfig e cfg = None
        \<and> clientset_Get e \<lparr>Namespace = namespace, Name = InstanceConfigMap\<rparr> s = Inl err
        \<and> IsNotFound err
        \<and> clientset_Create e (newConfigMap namespace InstanceConfigMap) s = (res, s') \<longrightarrow>
       EnsureWindowsInstancesConfigMap e (Some cfg) namespace s
         = (res, s',
            [GetConfigMap \<lparr>Namespace = namespace, Name = InstanceConfigMap\<rparr>,
             CreateConfigMap (newConfigMap namespace InstanceConfigMap) res]))
   \<and> (kubernetes_NewForConfig e cfg = None
        \<and> clientset_Get e \<lparr>Namespace = namespace, Name = InstanceConfigMap\<rparr> s = Inl err
        \<and> \<not> IsNotFound err \<longrightarrow>
       EnsureWindowsInstancesConfigMap e (Some cfg) namespace s
         = (Some err, s, [GetConfigMap \<lparr>Namespace = namespace, Name = InstanceConfigMap\<rparr>]))"
proof (intro conjI impI)
  assume "ensure e nn s = ((Some cm, None), s', evs)"
  then have "client_Get e nn s' = Inr cm"
    by (auto simp add: ensure_def Let_def split: sum.splits if_splits prod.splits option.splits)
  then show "ensure e nn s' = ((Some cm, None), s', [GetConfigMap nn])"
    by (simp add: ensure_def)
qed (auto simp add: ensure_def EnsureWindowsInstancesConfigMap_def Let_def
      split: sum.splits option.splits)

text \<open>
  C9, witness: an API server without the ConfigMap, one that holds it, one that refuses
  the create and one that cannot be reached.
\<close>

theorem ensure_create_if_absent_witness:
  "ensure (sample_env [] [] []) tracking []
     = ((Some (newConfigMap ''wmco'' InstanceConfigMap), None),
        [newConfigMap ''wmco'' InstanceConfigMap],
        [GetConfigMap tracking, CreateConfigMap (newConfigMap ''wmco'' InstanceConfigMap) None,
         GetConfigMap tracking])
   \<and> ensure (sample_env [] [] []) tracking [newConfigMap ''wmco'' InstanceConfigMap]
     = ((Some (newConfigMap ''wmco'' InstanceConfigMap), None),
        [newConfigMap ''wmco'' InstanceConfigMap], [GetConfigMap tracking])
   \<and> ensure (sample_env [] [] []) tracking [sample_cm sample_entries]
     = ((Some (sample_cm sample_entries), None), [sample_cm sample_entries], [GetConfigMap tracking])
   \<and> ensure readonly_env tracking []
     = ((None, Some (External ''forbidden'')), [],
        [GetConfigMap tracking,
         CreateConfigMap (newConfigMap ''wmco'' InstanceConfigMap) (Some (External ''forbidden''))])
   \<and> ensure unreachable_env tracking [sample_cm sample_entries]
     = ((Some emptyConfigMap, Some (External ''connection refused'')),
        [sample_cm sample_entries], [GetConfigMap tracking])
   \<and> EnsureWindowsInstancesConfigMap (sample_env [] [] []) (Some ''kubeconfig'') ''wmco''
        [sample_cm sample_entries]
     = (None, [sample_cm sample_entries], [GetConfigMap tracking])
   \<and> EnsureWindowsInstancesConfigMap (sample_env [] [] []) (Some ''kubeconfig'') ''wmco'' []
     = (None, [newConfigMap ''wmco'' InstanceConfigMap],
        [GetConfigMap tracking, CreateConfigMap (newConfigMap ''wmco'' InstanceConfigMap) None])
   \<and> EnsureWindowsInstancesConfigMap unreachable_env (Some ''kubeconfig'') ''wmco'' []
     = (Some (External ''connection refused''), [], [GetConfigMap tracking])"
proof -
  let ?e = "sample_env [] [] [] :: (ConfigMap list) env"
  let ?new = "newConfigMap ''wmco'' InstanceConfigMap"
  let ?cm = "sample_cm sample_entries"
  note defs = sample_env_def tracking_def newConfigMap_def emptyConfigMap_def store_Create_def
    sample_cm_def InstanceConfigMap_def unreachable_env_def readonly_env_def
  have g0: "client_Get ?e tracking [] = Inl StatusNotFound" "IsNotFound StatusNotFound"
    and c0: "client_Create ?e (newConfigMap (Namespace tracking) (Name tracking)) [] = (None, [?new])"
    and g1: "client_Get ?e tracking [?new] = Inr ?new"
    and g2: "client_Get ?e tracking [?cm] = Inr ?cm"
    and c3: "client_Get readonly_env tracking [] = Inl StatusNotFound"
      "client_Create readonly_env (newConfigMap (Namespace tracking) (Name tracking)) []
         = (Some (External ''forbidden''), [])"
    and g4: "client_Get unreachable_env tracking [?cm] = Inl (External ''connection refused'')"
      "\<not> IsNotFound (External ''connection refused'')"
    by (simp_all add: defs)
  have n: "kubernetes_NewForConfig ?e ''kubeconfig'' = None"
      "kubernetes_NewForConfig unreachable_env ''kubeconfig'' = None"
    and t6: "clientset_Get ?e \<lparr>Namespace = ''wmco'', Name = InstanceConfigMap\<rparr> [?cm] = Inr ?cm"
    and t7: "clientset_Get ?e \<lparr>Namespace = ''wmco'', Name = InstanceConfigMap\<rparr> [] = Inl StatusNotFound"
      "clientset_Create ?e (newConfigMap ''wmco'' InstanceConfigMap) [] = (None, [?new])"
    and t8: "clientset_Get unreachable_env \<lparr>Namespace = ''wmco'', Name = InstanceConfigMap\<rparr> []
         = Inl (External ''connection refused'')"
    by (simp_all add: defs)
  note a = ensure_create_if_absent [of ?e tracking "[]" _ StatusNotFound "[?new]"]
  note b = ensure_create_if_absent [of ?e tracking "[]" ?new _ "[?new]"]
  note c = ensure_create_if_absent [of ?e tracking "[?cm]" ?cm]
  note d = ensure_create_if_absent [of readonly_env tracking "[]" _ StatusNotFound "[]"
      "External ''forbidden''"]
  note f = ensure_create_if_absent [of unreachable_env tracking "[?cm]" _
      "External ''connection refused''"]
  note g = ensure_create_if_absent [of ?e _ "[?cm]" ?cm _ _ _ _ "''kubeconfig''" "''wmco''"]
  note h = ensure_create_if_absent [of ?e _ "[]" _ StatusNotFound "[?new]" _ _
      "''kubeconfig''" "''wmco''" None]
  note i = ensure_create_if_absent [of unreachable_env _ "[]" _ "External ''connection refused''"
      _ _ _ "''kubeconfig''" "''wmco''"]
  from a g0 c0 g1 have 1: "ensure ?e tracking []
     = ((Some ?new, None), [?new],
        [GetConfigMap tracking, CreateConfigMap ?new None, GetConfigMap tracking])"
    by (simp add: tracking_def)
  from b 1 have 2: "ensure ?e tracking [?new] = ((Some ?new, None), [?new], [GetConfigMap tracking])"
    by simp
  from c g2 have 3: "ensure ?e tracking [?cm] = ((Some ?cm, None), [?cm], [GetConfigMap tracking])"
    by simp
  from d c3 g0(2) have 4: "ensure readonly_env tracking []
     = ((None, Some (External ''forbidden'')), [],
        [GetConfigMap tracking, CreateConfigMap ?new (Some (External ''forbidden''))])"
    by (simp add: tracking_def)
  from f g4 have 5: "ensure unreachable_env tracking [?cm]
     = ((Some emptyConfigMap, Some (External ''connection refused'')), [?cm], [GetConfigMap tracking])"
    by simp
  from g n t6 have 6: "EnsureWindowsInstancesConfigMap ?e (Some ''kubeconfig'') ''wmco'' [?cm]
     = (None, [?cm], [GetConfigMap tracking])"
    by (simp add: tracking_def)
  from h n t7 g0(2) have 7: "EnsureWindowsInstancesConfigMap ?e (Some ''kubeconfig'') ''wmco'' []
     = (None, [?new], [GetConfigMap tracking, CreateConfigMap ?new None])"
    by (simp add: tracking_def)
  from i n t8 g4(2) have 8: "EnsureWindowsInstancesConfigMap unreachable_env (Some ''kubeconfig'') ''wmco'' []
     = (Some (External ''connection refused''), [], [GetConfigMap tracking])"
    by (simp add: tracking_def)
  from 1 2 3 4 5 6 7 8 show ?thesis by (intro conjI)
qed

end
